theory Spec2Isabelle
  imports Complex_Main
begin

section \<open>Values, tables and the Python runtime\<close>

text \<open>
  The module \<open>week2_assignments/etl.py\<close> works on pandas DataFrames that it mutates in
  place, on files of a feature store, and on three libraries (thefuzz, scikit-learn, Great
  Expectations). The model keeps these apart:
  \<^item> a cell of a table is a number, a missing value (pandas' NaN and NaT), a string or a
    calendar date; numbers are reals, so \<open>int64\<close> and \<open>float64\<close> are not told apart and
    the rounding of \<open>float64\<close> arithmetic is not modelled;
  \<^item> a DataFrame is the list of its named columns, in column order; its index is the row
    position (\<open>pd.merge\<close>, \<open>pd.read_csv\<close> and \<open>pd.read_json\<close> produce a fresh range
    index);
  \<^item> DataFrames are objects in a store, addressed by references, because the functions
    receive a DataFrame and change it in place;
  \<^item> every exception of the Python run is a value of type \<open>error\<close>, and a function that
    may raise returns \<open>error + 'a\<close> together with the world it leaves behind.
\<close>

datatype error =
    KeyError | TypeError | ValueError | AttributeError
  | FileNotFoundError | UnpicklingError | ParserError
  | InvalidDataContextConfigError
  | UnboundLocalError

datatype cell = Num real | NaN | Str string | Ts int int int

type_synonym series = "cell list"
type_synonym dataframe = "(string \<times> series) list"
type_synonym ref = nat
type_synonym path = "string list"

text \<open>A scikit-learn \<open>TargetEncoder\<close> object: unfitted, or holding the fitted state.\<close>

datatype 'e TargetEncoder = TargetEncoder (fitted: "'e option")

text \<open>What a file of the feature store or of the source directory holds.\<close>

datatype 'e blob =
    TableFile dataframe
  | TargetsFile series
  | PickleFile "'e TargetEncoder option"

text \<open>What the run does that an observer outside can see, in the order it happens.\<close>

datatype event =
    Opened path
  | Wrote path
  | Printed string
  | Fitted "string list"
  | Transformed "string list"

record 'e world =
  heap :: "dataframe list"
  files :: "(path \<times> 'e blob) list"
  trace :: "event list"

type_synonym ('e, 'a) io = "'e world \<Rightarrow> (error + 'a) \<times> 'e world"

definition returnE :: "'a \<Rightarrow> ('e, 'a) io" where
  "returnE x = (\<lambda>w. (Inr x, w))"

definition raise :: "error \<Rightarrow> ('e, 'a) io" where
  "raise e = (\<lambda>w. (Inl e, w))"

definition bindE :: "('e, 'a) io \<Rightarrow> ('a \<Rightarrow> ('e, 'b) io) \<Rightarrow> ('e, 'b) io" where
  "bindE m f = (\<lambda>w. case m w of (Inl e, w') \<Rightarrow> (Inl e, w') | (Inr x, w') \<Rightarrow> f x w')"

definition liftE :: "error + 'a \<Rightarrow> ('e, 'a) io" where
  "liftE r = (case r of Inl e \<Rightarrow> raise e | Inr x \<Rightarrow> returnE x)"

definition emit :: "event \<Rightarrow> ('e, unit) io" where
  "emit ev = (\<lambda>w. (Inr (), w\<lparr>trace := trace w @ [ev]\<rparr>))"

text \<open>
  References are created by \<open>alloc\<close> only, so a reference that a function receives is
  below \<open>length (heap w)\<close>; the theorems state this where they read the store.
\<close>

definition deref :: "ref \<Rightarrow> ('e, dataframe) io" where
  "deref r = (\<lambda>w. (Inr (heap w ! r), w))"

definition update :: "ref \<Rightarrow> dataframe \<Rightarrow> ('e, unit) io" where
  "update r d = (\<lambda>w. (Inr (), w\<lparr>heap := (heap w)[r := d]\<rparr>))"

definition alloc :: "dataframe \<Rightarrow> ('e, ref) io" where
  "alloc d = (\<lambda>w. (Inr (length (heap w)), w\<lparr>heap := heap w @ [d]\<rparr>))"

subsection \<open>The pandas operations the module uses\<close>

definition column_names :: "dataframe \<Rightarrow> string list" where
  "column_names d = map fst d"

definition nrows :: "dataframe \<Rightarrow> nat" where
  "nrows d = (case d of [] \<Rightarrow> 0 | (_, s) # _ \<Rightarrow> length s)"

text \<open>\<open>df[c]\<close>: the column, or KeyError.\<close>

definition getitem :: "dataframe \<Rightarrow> string \<Rightarrow> error + series" where
  "getitem d c = (case map_of d c of None \<Rightarrow> Inl KeyError | Some s \<Rightarrow> Inr s)"

text \<open>\<open>df[c] = s\<close>: overwrites the column where it stands, or appends a new last column.\<close>

fun setitem :: "dataframe \<Rightarrow> string \<Rightarrow> series \<Rightarrow> dataframe" where
  "setitem [] c s = [(c, s)]"
| "setitem ((n, t) # d) c s = (if n = c then (c, s) # d else (n, t) # setitem d c s)"

text \<open>\<open>df[[c1, ..., cn]]\<close>: the sub-table of these columns, or KeyError.\<close>

fun getitems :: "dataframe \<Rightarrow> string list \<Rightarrow> error + dataframe" where
  "getitems d [] = Inr []"
| "getitems d (c # cs) =
     (case getitem d c of
        Inl e \<Rightarrow> Inl e
      | Inr s \<Rightarrow> (case getitems d cs of Inl e \<Rightarrow> Inl e | Inr t \<Rightarrow> Inr ((c, s) # t)))"

text \<open>
  \<open>df[names] = table\<close>: column by column. The names of the table assigned are taken to
  be distinct; pandas raises on a repeated name.
\<close>

definition setitems :: "dataframe \<Rightarrow> dataframe \<Rightarrow> dataframe" where
  "setitems d t = foldl (\<lambda>acc (n, s). setitem acc n s) d t"

text \<open>
  \<open>df.drop(columns=cs)\<close> with the default \<open>errors='raise'\<close>: KeyError as soon as one label
  is not a column.
\<close>

definition drop_columns :: "dataframe \<Rightarrow> string list \<Rightarrow> error + dataframe" where
  "drop_columns d cs =
     (if list_all (\<lambda>c. c \<in> set (column_names d)) cs
      then Inr (filter (\<lambda>(n, s). n \<notin> set cs) d)
      else Inl KeyError)"

text \<open>
  \<open>df.rename(columns={old: new})\<close> with the default \<open>errors='ignore'\<close>: a label that is
  not a column is skipped silently.
\<close>

definition rename_column :: "string \<Rightarrow> string \<Rightarrow> dataframe \<Rightarrow> dataframe" where
  "rename_column old new d = map (\<lambda>(n, s). (if n = old then new else n, s)) d"

text \<open>
  \<open>pd.merge(left, right, how='inner', on=keys)\<close>: KeyError when a key is not a column of
  both; one row per pair of a left and a right row with equal keys (missing keys match each
  other), here in the order of the left rows; the columns of the left table, then those of
  the right table that are not keys; a name the two tables share beyond the keys gets the
  suffixes \<open>_x\<close> and \<open>_y\<close>. Columns have no dtype in this model, so the error pandas
  raises for key columns of different dtypes is not modelled, nor is the order pandas gives
  the rows of a repeated key.
\<close>

definition row_key :: "dataframe \<Rightarrow> string list \<Rightarrow> nat \<Rightarrow> cell list" where
  "row_key d keys i = map (\<lambda>k. case map_of d k of None \<Rightarrow> NaN | Some s \<Rightarrow> s ! i) keys"

definition merge_inner :: "dataframe \<Rightarrow> dataframe \<Rightarrow> string list \<Rightarrow> error + dataframe" where
  "merge_inner left right keys =
     (if \<not> (list_all (\<lambda>k. k \<in> set (column_names left)) keys
             \<and> list_all (\<lambda>k. k \<in> set (column_names right)) keys)
      then Inl KeyError
      else
        (let pairs = concat (map (\<lambda>i. map (\<lambda>j. (i, j))
                       (filter (\<lambda>j. row_key left keys i = row_key right keys j)
                          [0 ..< nrows right])) [0 ..< nrows left]);
             shared = (\<lambda>n. n \<notin> set keys \<and> n \<in> set (column_names left)
                            \<and> n \<in> set (column_names right));
             lcols = map (\<lambda>(n, s). (if shared n then n @ ''_x'' else n,
                                      map (\<lambda>(i, j). s ! i) pairs)) left;
             rcols = map (\<lambda>(n, s). (if shared n then n @ ''_y'' else n,
                                      map (\<lambda>(i, j). s ! j) pairs))
                       (filter (\<lambda>(n, s). n \<notin> set keys) right)
         in Inr (lcols @ rcols)))"

text \<open>\<open>Path / name\<close>: pathlib raises TypeError when the name is \<open>None\<close>.\<close>

definition path_join :: "path \<Rightarrow> string option \<Rightarrow> error + path" where
  "path_join p name = (case name of None \<Rightarrow> Inl TypeError | Some n \<Rightarrow> Inr (p @ [n]))"


text \<open>
  Writing a file. The directory of the path is taken to exist: a write does not fail.
\<close>

definition write_file :: "path \<Rightarrow> 'e blob \<Rightarrow> ('e, unit) io" where
  "write_file p b =
     bindE (emit (Wrote p)) (\<lambda>_.
     (\<lambda>w. (Inr (), w\<lparr>files := (p, b) # files w\<rparr>)))"

subsection \<open>The libraries, as parameters\<close>

text \<open>
  What the libraries compute is not code of this module. The numeric and statistical
  parts are parameters of the model:
  \<^item> \<open>to_datetime\<close>: how \<open>pd.to_datetime\<close> parses one cell, or the error it raises;
  \<^item> \<open>fuzz_ratio q c\<close>: the score that \<open>process.extractOne(..., scorer=fuzz.ratio)\<close>
    gives the query \<open>q\<close> against the choice \<open>c\<close>;
  \<^item> \<open>float_of_str\<close>: Python's parsing of a string as a float;
  \<^item> \<open>estimate X c i\<close>: the value \<open>IterativeImputer\<close> (seed 42) estimates for row \<open>i\<close>
    of column \<open>c\<close> of the table \<open>X\<close>;
  \<^item> \<open>encoder_fit\<close>, \<open>encoder_transform\<close>: \<open>TargetEncoder.fit\<close> and \<open>.transform\<close>;
  \<^item> Great Expectations, reduced to the error a call raises, or to the \<open>success\<close> flag
    of the checkpoint result: \<open>gx_get_context\<close> is \<open>gx.get_context\<close> called with the
    keyword \<open>context_root_dir\<close>, and \<open>gx_get_context_project_config\<close> is the same
    function called with the directory as its first positional argument, which the library
    takes as \<open>project_config\<close>; \<open>gx_get_datasource\<close>, \<open>gx_add_dataframe_asset\<close>,
    \<open>gx_get_asset\<close> and \<open>gx_build_batch_request\<close> are the four calls of
    \<open>batch_creator\<close>; \<open>gx_checkpoint\<close> is \<open>add_or_update_checkpoint\<close> followed by
    \<open>run\<close>.
\<close>

record 'e lib =
  to_datetime :: "cell \<Rightarrow> error + cell"
  fuzz_ratio :: "string \<Rightarrow> string \<Rightarrow> nat"
  float_of_str :: "string \<Rightarrow> real option"
  estimate :: "dataframe \<Rightarrow> string \<Rightarrow> nat \<Rightarrow> real"
  encoder_fit :: "dataframe \<Rightarrow> series \<Rightarrow> error + 'e"
  encoder_transform :: "'e \<Rightarrow> dataframe \<Rightarrow> error + series list"
  gx_get_context :: "path \<Rightarrow> error option"
  gx_get_context_project_config :: "path \<Rightarrow> error option"
  gx_get_datasource :: "string \<Rightarrow> error option"
  gx_add_dataframe_asset :: "string \<Rightarrow> string \<Rightarrow> error option"
  gx_get_asset :: "string \<Rightarrow> string \<Rightarrow> error option"
  gx_build_batch_request :: "string \<Rightarrow> dataframe \<Rightarrow> error option"
  gx_checkpoint :: "string \<Rightarrow> string \<Rightarrow> string \<Rightarrow> string \<times> dataframe \<Rightarrow> error + bool"

text \<open>Mapping a function that may raise over a column: the first error wins.\<close>

fun mapE :: "('a \<Rightarrow> error + 'b) \<Rightarrow> 'a list \<Rightarrow> error + 'b list" where
  "mapE f [] = Inr []"
| "mapE f (x # xs) =
     (case f x of
        Inl e \<Rightarrow> Inl e
      | Inr y \<Rightarrow> (case mapE f xs of Inl e \<Rightarrow> Inl e | Inr ys \<Rightarrow> Inr (y # ys)))"

text \<open>
  \<open>process.extractOne(query, choices, scorer=fuzz.ratio)\<close> of thefuzz: the choice with the
  best score and that score, the first one in the order of \<open>choices\<close> among equals;
  \<open>None\<close> when there is no choice.
\<close>

fun extractOne :: "(string \<Rightarrow> string \<Rightarrow> nat) \<Rightarrow> string \<Rightarrow> string list \<Rightarrow> (string \<times> nat) option" where
  "extractOne sc q [] = None"
| "extractOne sc q (c # cs) =
     (case extractOne sc q cs of
        None \<Rightarrow> Some (c, sc q c)
      | Some (b, s) \<Rightarrow> (if s \<le> sc q c then Some (c, sc q c) else Some (b, s)))"

text \<open>
  \<open>IterativeImputer(random_state=42, add_indicator=True)\<close> of scikit-learn, as
  \<open>fit_transform\<close> followed by \<open>get_feature_names_out\<close>: the table must have a row and
  a column and hold numbers only (a string is rejected here, also one that spells a
  number, which scikit-learn would convert); a column with no observed value is left out of the
  result; every other column keeps its observed values and gets an estimate where a value
  is missing; then, for every column with a missing value, an indicator column
  \<open>missingindicator_<name>\<close> holding 1 where the value was missing and 0 elsewhere.
\<close>

definition missing :: "cell \<Rightarrow> bool" where
  "missing c = (c = NaN)"

fun numeric :: "cell \<Rightarrow> bool" where
  "numeric (Num r) = True"
| "numeric NaN = True"
| "numeric (Str s) = False"
| "numeric (Ts y m d) = False"

definition fill_column :: "(dataframe \<Rightarrow> string \<Rightarrow> nat \<Rightarrow> real) \<Rightarrow> dataframe \<Rightarrow> string \<Rightarrow> series \<Rightarrow> series" where
  "fill_column est X n s =
     map (\<lambda>(i, c). if missing c then Num (est X n i) else c) (zip [0 ..< length s] s)"

definition indicator_column :: "series \<Rightarrow> series" where
  "indicator_column s = map (\<lambda>c. if missing c then Num 1 else Num 0) s"

definition IterativeImputer_fit_transform ::
  "(dataframe \<Rightarrow> string \<Rightarrow> nat \<Rightarrow> real) \<Rightarrow> dataframe \<Rightarrow> error + dataframe" where
  "IterativeImputer_fit_transform est X =
     (if X = [] \<or> nrows X = 0 \<or> \<not> list_all (\<lambda>(n, s). list_all numeric s) X
      then Inl ValueError
      else Inr (map (\<lambda>(n, s). (n, fill_column est X n s))
                  (filter (\<lambda>(n, s). \<not> list_all missing s) X)
                @ map (\<lambda>(n, s). (''missingindicator_'' @ n, indicator_column s))
                    (filter (\<lambda>(n, s). list_ex missing s) X)))"

text \<open>
  The calendar of \<open>Series.dt\<close>: the quarter of a month, and the day of the week of a date
  (Monday is 0), by the count of days since 1970-01-01, a Thursday.
\<close>

definition days_from_civil :: "int \<Rightarrow> int \<Rightarrow> int \<Rightarrow> int" where
  "days_from_civil y m d =
     (let y' = (if m \<le> 2 then y - 1 else y);
          era = y' div 400;
          yoe = y' - era * 400;
          mp = (m + 9) mod 12;
          doy = (153 * mp + 2) div 5 + d - 1;
          doe = yoe * 365 + yoe div 4 - yoe div 100 + doy
      in era * 146097 + doe - 719468)"

fun dt_year :: "cell \<Rightarrow> cell" where
  "dt_year (Ts y m d) = Num (of_int y)"
| "dt_year c = NaN"

fun dt_quarter :: "cell \<Rightarrow> cell" where
  "dt_quarter (Ts y m d) = Num (of_int ((m - 1) div 3 + 1))"
| "dt_quarter c = NaN"

fun dt_weekday :: "cell \<Rightarrow> cell" where
  "dt_weekday (Ts y m d) = Num (of_int ((days_from_civil y m d + 3) mod 7))"
| "dt_weekday c = NaN"

fun datetimelike :: "cell \<Rightarrow> bool" where
  "datetimelike (Ts y m d) = True"
| "datetimelike NaN = True"
| "datetimelike c = False"

text \<open>The \<open>.dt\<close> accessor: AttributeError on a column that is not of datetimes.\<close>

definition dt_accessor :: "(cell \<Rightarrow> cell) \<Rightarrow> series \<Rightarrow> error + series" where
  "dt_accessor f s = (if list_all datetimelike s then Inr (map f s) else Inl AttributeError)"





fun is_str :: "cell \<Rightarrow> bool" where
  "is_str (Str s) = True"
| "is_str c = False"


text \<open>Comparison and division of a cell with a number; a missing value compares false.\<close>

fun ge_num :: "real \<Rightarrow> cell \<Rightarrow> error + bool" where
  "ge_num k (Num r) = Inr (k \<le> r)"
| "ge_num k NaN = Inr False"
| "ge_num k c = Inl TypeError"

fun div_num :: "real \<Rightarrow> cell \<Rightarrow> error + cell" where
  "div_num k (Num r) = Inr (Num (r / k))"
| "div_num k NaN = Inr NaN"
| "div_num k c = Inl TypeError"

text \<open>\<open>Series.astype('float64')\<close>, cell by cell.\<close>

fun astype_float64 :: "(string \<Rightarrow> real option) \<Rightarrow> cell \<Rightarrow> error + cell" where
  "astype_float64 parse (Num r) = Inr (Num r)"
| "astype_float64 parse NaN = Inr NaN"
| "astype_float64 parse (Str s) =
     (case parse s of None \<Rightarrow> Inl ValueError | Some r \<Rightarrow> Inr (Num r))"
| "astype_float64 parse (Ts y m d) = Inl TypeError"

fun path_str :: "path \<Rightarrow> string" where
  "path_str [] = []"
| "path_str [n] = n"
| "path_str (n # ns) = n @ ''/'' @ path_str ns"

section \<open>The module\<close>


definition dataframe_merger :: "'e lib \<Rightarrow> ref \<Rightarrow> ref \<Rightarrow> ('e, ref) io" where
  "dataframe_merger L prices house_data =
     bindE (deref prices) (\<lambda>p.
     bindE (liftE (getitem p ''datesold'')) (\<lambda>s.
     bindE (liftE (mapE (to_datetime L) s)) (\<lambda>dt.
     bindE (update prices (setitem p ''date'' dt)) (\<lambda>_.
     bindE (deref prices) (\<lambda>p1.
     bindE (update prices (rename_column ''building_year'' ''yr_built'' p1)) (\<lambda>_.
     bindE (deref prices) (\<lambda>p2.
     bindE (deref house_data) (\<lambda>h.
     bindE (liftE (merge_inner p2 h
              [''postcode'', ''area'', ''date'', ''yr_built'', ''bedrooms''])) (\<lambda>df.
     alloc df)))))))))"

definition drop_futile_columns :: "ref \<Rightarrow> ('e, unit) io" where
  "drop_futile_columns df =
     bindE (deref df) (\<lambda>d.
     bindE (liftE (drop_columns d
              [''yr_renovated'', ''prev_owner'', ''datesold'', ''sqft_above''])) (\<lambda>d'.
     update df d'))"

definition correct_distance_unit :: "ref \<Rightarrow> ('e, unit) io" where
  "correct_distance_unit df =
     bindE (deref df) (\<lambda>d.
     bindE (liftE (getitem d ''distance'')) (\<lambda>s.
     bindE (liftE (mapE (div_num 1000) s)) (\<lambda>rhs.
     bindE (liftE (mapE (ge_num 100) s)) (\<lambda>mask.
     update df (setitem d ''distance''
       (map (\<lambda>(m, new, old). if m then new else old) (zip mask (zip rhs s))))))))"


text \<open>
  The loop of \<open>typo_fixer\<close>, with its two accumulators \<open>conditions\<close> and \<open>scores\<close>.
  thefuzz accepts a string as the query; unpacking the result \<open>None\<close> of an empty list of
  choices is a TypeError.
\<close>

fun typo_loop ::
  "(string \<Rightarrow> string \<Rightarrow> nat) \<Rightarrow> real \<Rightarrow> string list \<Rightarrow> series \<Rightarrow> error + (series \<times> series)" where
  "typo_loop sc threshold choices [] = Inr ([], [])"
| "typo_loop sc threshold choices (Str v # rest) =
     (case extractOne sc v choices of
        None \<Rightarrow> Inl TypeError
      | Some (best_match, score) \<Rightarrow>
          (case typo_loop sc threshold choices rest of
             Inl e \<Rightarrow> Inl e
           | Inr (conditions, scores) \<Rightarrow>
               Inr ((if threshold \<le> real score then Str best_match else Str v) # conditions,
                    Num (real score) # scores)))"
| "typo_loop sc threshold choices (c # rest) = Inl TypeError"

definition typo_fixer :: "'e lib \<Rightarrow> ref \<Rightarrow> real \<Rightarrow> string list \<Rightarrow> ('e, unit) io" where
  "typo_fixer L df threshold correct_condition_values =
     bindE (deref df) (\<lambda>d.
     bindE (liftE (getitem d ''condition'')) (\<lambda>col.
     bindE (liftE (typo_loop (fuzz_ratio L) threshold correct_condition_values col))
       (\<lambda>(conditions, scores).
     update df (setitem (setitem d ''condition'' conditions) ''similarity_scores'' scores))))"




definition separate_X_and_y :: "'e lib \<Rightarrow> ref \<Rightarrow> string \<Rightarrow> ('e, ref \<times> series) io" where
  "separate_X_and_y L df target =
     bindE (deref df) (\<lambda>d.
     bindE (alloc d) (\<lambda>copy.
     bindE (deref copy) (\<lambda>c.
     bindE (liftE (getitem c target)) (\<lambda>col.
     bindE (liftE (mapE (astype_float64 (float_of_str L)) col)) (\<lambda>y.
     bindE (alloc (filter (\<lambda>(n, s). n \<noteq> target) c)) (\<lambda>X.
     returnE (X, y)))))))"

definition impute_missing :: "'e lib \<Rightarrow> ref \<Rightarrow> ('e, unit) io" where
  "impute_missing L df =
     bindE (deref df) (\<lambda>d.
     (let included_columns =
            map (\<lambda>x. x \<notin> set [''postcode'', ''area'', ''date'', ''condition'']) (column_names d);
          df_to_impute = map snd (filter fst (zip included_columns d))
      in bindE (liftE (IterativeImputer_fit_transform (estimate L) df_to_impute)) (\<lambda>imputed_df.
         update df (setitems d imputed_df))))"

definition datetime_decomposer :: "ref \<Rightarrow> string \<Rightarrow> ('e, unit) io" where
  "datetime_decomposer df dt_column_name =
     bindE (deref df) (\<lambda>d0.
     bindE (liftE (getitem d0 dt_column_name)) (\<lambda>s0.
     bindE (liftE (dt_accessor dt_year s0)) (\<lambda>years.
     bindE (update df (setitem d0 ''year'' years)) (\<lambda>_.
     bindE (deref df) (\<lambda>d1.
     bindE (liftE (getitem d1 dt_column_name)) (\<lambda>s1.
     bindE (liftE (dt_accessor dt_quarter s1)) (\<lambda>quarters.
     bindE (update df (setitem d1 ''quarter'' quarters)) (\<lambda>_.
     bindE (deref df) (\<lambda>d2.
     bindE (liftE (getitem d2 dt_column_name)) (\<lambda>s2.
     bindE (liftE (dt_accessor dt_weekday s2)) (\<lambda>weekdays.
     bindE (update df (setitem d2 ''weekday'' weekdays)) (\<lambda>_.
     bindE (deref df) (\<lambda>d3.
     bindE (liftE (drop_columns d3 [dt_column_name])) (\<lambda>d4.
     update df d4))))))))))))))"

text \<open>\<open>Series.map(dict)\<close>: a value that is not a key of the dictionary becomes missing.\<close>

definition condition_codes :: "(string \<times> real) list" where
  "condition_codes =
     [(''poor'', 1), (''tolerable'', 2), (''satisfactory'', 3), (''good'', 4), (''excellent'', 5)]"

fun series_map :: "(string \<times> real) list \<Rightarrow> cell \<Rightarrow> cell" where
  "series_map dict (Str s) = (case map_of dict s of None \<Rightarrow> NaN | Some k \<Rightarrow> Num k)"
| "series_map dict c = NaN"

definition condition_encoder :: "ref \<Rightarrow> ('e, unit) io" where
  "condition_encoder df =
     bindE (deref df) (\<lambda>d.
     bindE (liftE (getitem d ''condition'')) (\<lambda>s.
     update df (setitem d ''condition'' (map (series_map condition_codes) s))))"

text \<open>
  \<open>df[columns] = encoder.transform(df[columns])\<close>: the array that \<open>transform\<close> returns
  must have one column for each of \<open>columns\<close> and one row for each row of the table.
  The \<open>transform\<close> of an encoder that was never fitted raises AttributeError.
\<close>

definition assign_array :: "dataframe \<Rightarrow> string list \<Rightarrow> series list \<Rightarrow> error + dataframe" where
  "assign_array d cols arr =
     (if length arr = length cols \<and> list_all (\<lambda>s. length s = nrows d) arr
      then Inr (setitems d (zip cols arr))
      else Inl ValueError)"

definition target_encode ::
  "'e lib \<Rightarrow> ref \<Rightarrow> string list \<Rightarrow> series option \<Rightarrow> 'e TargetEncoder option
     \<Rightarrow> ('e, 'e TargetEncoder) io" where
  "target_encode L df cols target encoder =
     (let encoder0 = (case encoder of None \<Rightarrow> TargetEncoder None | Some enc \<Rightarrow> enc) in
      bindE (case target of
               None \<Rightarrow> returnE encoder0
             | Some y \<Rightarrow>
                 bindE (deref df) (\<lambda>d.
                 bindE (liftE (getitems d cols)) (\<lambda>Xc.
                 bindE (emit (Fitted cols)) (\<lambda>_.
                 bindE (liftE (encoder_fit L Xc y)) (\<lambda>st.
                 returnE (TargetEncoder (Some st))))))) (\<lambda>encoder1.
      bindE (deref df) (\<lambda>d.
      bindE (liftE (getitems d cols)) (\<lambda>Xc.
      bindE (emit (Transformed cols)) (\<lambda>_.
      bindE (liftE (case fitted encoder1 of
                      None \<Rightarrow> Inl AttributeError
                    | Some st \<Rightarrow> encoder_transform L st Xc)) (\<lambda>arr.
      bindE (liftE (assign_array d cols arr)) (\<lambda>d'.
      bindE (update df d') (\<lambda>_.
      returnE encoder1))))))))"

definition store_features :: "ref \<Rightarrow> path \<Rightarrow> ('e, unit) io" where
  "store_features X feature_file_path =
     bindE (deref X) (\<lambda>d.
     bindE (write_file feature_file_path (TableFile d)) (\<lambda>_.
     emit (Printed (''Features stored in '' @ path_str feature_file_path))))"

definition store_targets :: "series \<Rightarrow> path \<Rightarrow> ('e, unit) io" where
  "store_targets y target_file_path =
     bindE (write_file target_file_path (TargetsFile y)) (\<lambda>_.
     emit (Printed (''Targets stored in '' @ path_str target_file_path)))"

definition store_encoder :: "'e TargetEncoder \<Rightarrow> path \<Rightarrow> ('e, unit) io" where
  "store_encoder encoder encoder_file_path =
     bindE (write_file encoder_file_path (PickleFile (Some encoder))) (\<lambda>_.
     emit (Printed (''Encoder stored in '' @ path_str encoder_file_path)))"

definition drop_unimportant_features :: "ref \<Rightarrow> ('e, unit) io" where
  "drop_unimportant_features df =
     (let unimportant_features =
            [''floors'', ''similarity_scores'', ''missingindicator_sqft_living15'',
             ''missingindicator_sqft_lot15'', ''quarter'', ''weekday'']
      in bindE (deref df) (\<lambda>d.
         bindE (liftE (drop_columns d unimportant_features)) (\<lambda>d'.
         update df d')))"

text \<open>\<open>with open(path, 'rb') as f: pickle.load(f)\<close>.\<close>

definition load_pickle :: "path \<Rightarrow> ('e, 'e TargetEncoder option) io" where
  "load_pickle p =
     bindE (emit (Opened p)) (\<lambda>_.
     bindE (\<lambda>w. (Inr (map_of (files w) p), w)) (\<lambda>f.
       case f of
         None \<Rightarrow> raise FileNotFoundError
       | Some (PickleFile obj) \<Rightarrow> returnE obj
       | Some _ \<Rightarrow> raise UnpicklingError))"

text \<open>
  The local variable \<open>y\<close> of \<open>feature_engineering_pipeline\<close> is bound only when
  \<open>targets_included\<close> holds; reading it unbound is Python's UnboundLocalError.
\<close>

definition local_y :: "series option \<Rightarrow> ('e, series) io" where
  "local_y y = (case y of None \<Rightarrow> raise UnboundLocalError | Some v \<Rightarrow> returnE v)"

definition feature_engineering_pipeline ::
  "'e lib \<Rightarrow> ref \<Rightarrow> path \<Rightarrow> string \<Rightarrow> string \<Rightarrow> string option \<Rightarrow> bool \<Rightarrow> bool \<Rightarrow> ('e, unit) io" where
  "feature_engineering_pipeline L df feature_store_path feature_file_name encoder_file_name
       target_file_name fit_encoder targets_included =
     bindE (if targets_included
            then bindE (separate_X_and_y L df ''price'') (\<lambda>(X, y). returnE (X, Some y))
            else if fit_encoder then raise ValueError
            else bindE (deref df) (\<lambda>d. bindE (alloc d) (\<lambda>X. returnE (X, None))))
       (\<lambda>(X, y).
     bindE (impute_missing L X) (\<lambda>_.
     bindE (datetime_decomposer X ''date'') (\<lambda>_.
     bindE (condition_encoder X) (\<lambda>_.
     bindE (drop_unimportant_features X) (\<lambda>_.
     bindE (liftE (path_join feature_store_path (Some feature_file_name))) (\<lambda>feature_file_path.
     bindE (liftE (path_join feature_store_path target_file_name)) (\<lambda>target_file_path.
     bindE (liftE (path_join (feature_store_path @ [''encoders''])
                     (Some encoder_file_name))) (\<lambda>encoder_file_path.
     if fit_encoder then
       bindE (local_y y) (\<lambda>yv.
       bindE (target_encode L X [''postcode'', ''area''] (Some yv) None) (\<lambda>t_encoder.
       bindE (store_features X feature_file_path) (\<lambda>_.
       bindE (store_targets yv target_file_path) (\<lambda>_.
       store_encoder t_encoder encoder_file_path))))
     else
       bindE (load_pickle encoder_file_path) (\<lambda>t_encoder.
       bindE (target_encode L X [''postcode'', ''area''] None t_encoder) (\<lambda>_.
       bindE (store_features X feature_file_path) (\<lambda>_.
       if targets_included
       then bindE (local_y y) (\<lambda>yv. store_targets yv target_file_path)
       else returnE ())))))))))))"




section \<open>A concrete instance, for the examples\<close>

text \<open>
  The examples below run the module on two small input files. They use a stand-in for each
  library: a similarity ratio by longest common subsequence, a parser of dates written
  \<open>YYYY-MM-DD\<close>, an imputer that estimates 7 everywhere, an encoder whose fitted state
  is one number that \<open>transform\<close> writes into every cell, and a Great Expectations that
  rejects a directory passed as \<open>project_config\<close>.
\<close>

fun lcs :: "string \<Rightarrow> string \<Rightarrow> nat" where
  "lcs [] ys = 0"
| "lcs (x # xs) [] = 0"
| "lcs (x # xs) (y # ys) =
     (if x = y then Suc (lcs xs ys) else max (lcs xs (y # ys)) (lcs (x # xs) ys))"

definition demo_ratio :: "string \<Rightarrow> string \<Rightarrow> nat" where
  "demo_ratio a b =
     (if length a + length b = 0 then 100
      else (400 * lcs a b + (length a + length b)) div (2 * (length a + length b)))"

definition digits :: "string \<Rightarrow> int" where
  "digits s = foldl (\<lambda>acc c. 10 * acc + (int (of_char c) - 48)) 0 s"

fun demo_to_datetime :: "cell \<Rightarrow> error + cell" where
  "demo_to_datetime (Str s) =
     (if length s = 10
      then Inr (Ts (digits (take 4 s)) (digits (take 2 (drop 5 s))) (digits (drop 8 s)))
      else Inl ValueError)"
| "demo_to_datetime NaN = Inr NaN"
| "demo_to_datetime (Ts y m d) = Inr (Ts y m d)"
| "demo_to_datetime (Num r) = Inl ValueError"

definition demo_lib :: "real lib" where
  "demo_lib = \<lparr>
     to_datetime = demo_to_datetime,
     fuzz_ratio = demo_ratio,
     float_of_str = (\<lambda>s. None),
     estimate = (\<lambda>X c i. 7),
     encoder_fit = (\<lambda>X y. Inr 42),
     encoder_transform = (\<lambda>m X. Inr (map (\<lambda>(n, s). map (\<lambda>c. Num m) s) X)),
     gx_get_context = (\<lambda>p. None),
     gx_get_context_project_config = (\<lambda>p. Some InvalidDataContextConfigError),
     gx_get_datasource = (\<lambda>n. None),
     gx_add_dataframe_asset = (\<lambda>n a. None),
     gx_get_asset = (\<lambda>n a. None),
     gx_build_batch_request = (\<lambda>a d. None),
     gx_checkpoint = (\<lambda>c s r b. Inr True) \<rparr>"

definition demo_deals :: dataframe where
  "demo_deals =
     [(''postcode'', [Str ''A1'']),
      (''area'', [Str ''north'']),
      (''datesold'', [Str ''2020-03-15'']),
      (''price'', [Num 300000]),
      (''building_year'', [Num 1990]),
      (''bedrooms'', [Num 3])]"

definition demo_house_info :: dataframe where
  "demo_house_info =
     [(''postcode'', [Str ''A1'']),
      (''area'', [Str ''north'']),
      (''date'', [Ts 2020 3 15]),
      (''yr_built'', [Num 1990]),
      (''bedrooms'', [Num 3]),
      (''floors'', [Num 1]),
      (''yr_renovated'', [Num 0]),
      (''prev_owner'', [Str ''x'']),
      (''sqft_above'', [Num 100]),
      (''condition'', [Str '' Good '']),
      (''distance'', [Num 250]),
      (''sqft_living15'', [NaN]),
      (''sqft_lot15'', [NaN])]"

text \<open>The table that \<open>data_extraction\<close> makes of the two files, without the price.\<close>

definition demo_features :: dataframe where
  "demo_features =
     [(''postcode'', [Str ''A1'']),
      (''area'', [Str ''north'']),
      (''yr_built'', [Num 1990]),
      (''bedrooms'', [Num 3]),
      (''date'', [Ts 2020 3 15]),
      (''floors'', [Num 1]),
      (''condition'', [Str ''good'']),
      (''distance'', [Num (1 / 4)]),
      (''sqft_living15'', [NaN]),
      (''sqft_lot15'', [NaN]),
      (''similarity_scores'', [Num 100])]"

definition demo_files :: "(path \<times> real blob) list" where
  "demo_files =
     [([''data'', ''deals.csv''], TableFile demo_deals),
      ([''data'', ''house_info.json''], TableFile demo_house_info),
      ([''store'', ''encoders'', ''enc.pkl''], PickleFile (Some (TargetEncoder (Some 42))))]"

section \<open>Frame conditions\<close>

text \<open>
  What a step leaves alone: \<open>touches_only X w w'\<close> says that between the worlds \<open>w\<close> and
  \<open>w'\<close> no table was created and no table but \<open>X\<close> was changed; \<open>silent w w'\<close> says
  that no file was written and nothing was added to the trace.
\<close>

definition touches_only :: "ref \<Rightarrow> 'e world \<Rightarrow> 'e world \<Rightarrow> bool" where
  "touches_only X w w' =
     (length (heap w') = length (heap w) \<and> (\<forall>i. i \<noteq> X \<longrightarrow> heap w' ! i = heap w ! i))"

definition silent :: "'e world \<Rightarrow> 'e world \<Rightarrow> bool" where
  "silent w w' = (files w' = files w \<and> trace w' = trace w)"

text \<open>
  \<open>only_emits A w w'\<close> says that between \<open>w\<close> and \<open>w'\<close> no file was written and the
  trace grew by events of the set \<open>A\<close> only.
\<close>

definition only_emits :: "event set \<Rightarrow> 'e world \<Rightarrow> 'e world \<Rightarrow> bool" where
  "only_emits A w w' = (files w' = files w \<and> (\<exists>evs. trace w' = trace w @ evs \<and> set evs \<subseteq> A))"

section \<open>Properties\<close>

subsection \<open>Running the steps of a function\<close>

lemma returnE_apply [simp]: "returnE x w = (Inr x, w)"
  by (simp add: returnE_def)

lemma raise_apply [simp]: "raise e w = (Inl e, w)"
  by (simp add: raise_def)

lemma liftE_apply [simp]:
  "liftE (Inr x) w = (Inr x, w)" "liftE (Inl e) w = (Inl e, w)"
  by (simp_all add: liftE_def)

lemma emit_apply [simp]: "emit ev w = (Inr (), w\<lparr>trace := trace w @ [ev]\<rparr>)"
  by (simp add: emit_def)

lemma deref_apply [simp]: "deref r w = (Inr (heap w ! r), w)"
  by (simp add: deref_def)

lemma update_apply [simp]: "update r d w = (Inr (), w\<lparr>heap := (heap w)[r := d]\<rparr>)"
  by (simp add: update_def)

lemma alloc_apply [simp]: "alloc d w = (Inr (length (heap w)), w\<lparr>heap := heap w @ [d]\<rparr>)"
  by (simp add: alloc_def)

lemma bindE_apply: "bindE m f w = (case m w of (Inl e, w') \<Rightarrow> (Inl e, w') | (Inr x, w') \<Rightarrow> f x w')"
  by (simp add: bindE_def)

lemma bindE_Inr [simp]: "m w = (Inr x, w') \<Longrightarrow> bindE m f w = f x w'"
  by (simp add: bindE_def)

lemma bindE_Inl [simp]: "m w = (Inl e, w') \<Longrightarrow> bindE m f w = (Inl e, w')"
  by (simp add: bindE_def)

lemma bindE_cases:
  assumes "bindE m f w = (r, w')"
  obtains (fails) e where "m w = (Inl e, w')" "r = Inl e"
        | (runs) x w1 where "m w = (Inr x, w1)" "f x w1 = (r, w')"
  using assms by (auto simp: bindE_def split: prod.splits sum.splits)

subsection \<open>Columns of a table\<close>

lemma getitem_setitem_same [simp]: "getitem (setitem d c s) c = Inr s"
  by (induction d c s rule: setitem.induct) (auto simp: getitem_def)

lemma getitem_setitem_other [simp]: "c' \<noteq> c \<Longrightarrow> getitem (setitem d c s) c' = getitem d c'"
  by (induction d c s rule: setitem.induct) (auto simp: getitem_def)

lemma column_names_setitem_present:
  "c \<in> set (column_names d) \<Longrightarrow> column_names (setitem d c s) = column_names d"
  by (induction d c s rule: setitem.induct) (auto simp: column_names_def)

lemma column_names_setitem_absent:
  "c \<notin> set (column_names d) \<Longrightarrow> column_names (setitem d c s) = column_names d @ [c]"
  by (induction d c s rule: setitem.induct) (auto simp: column_names_def)

lemma getitem_Inr_column: "getitem d c = Inr s \<Longrightarrow> c \<in> set (column_names d)"
  by (auto simp: getitem_def column_names_def split: option.splits dest: map_of_SomeD intro: rev_image_eqI)

lemma getitem_absent: "c \<notin> set (column_names d) \<Longrightarrow> getitem d c = Inl KeyError"
  by (auto simp: getitem_def column_names_def map_of_eq_None_iff split: option.splits)

subsection \<open>Ordinal encoding of the condition\<close>

text \<open>
  Claim C7. On a table that has a \<open>condition\<close> column, \<open>condition_encoder\<close> never
  raises; it replaces the column by its image under the fixed dictionary: \<open>poor\<close> becomes
  1, \<open>tolerable\<close> 2, \<open>satisfactory\<close> 3, \<open>good\<close> 4, \<open>excellent\<close> 5, and every other value
  (another string, a number, a missing value) becomes the missing value.
\<close>

theorem condition_encoder_ordinal:
  assumes "df < length (heap w)"
    and "getitem (heap w ! df) ''condition'' = Inr s"
  shows "\<exists>w'. condition_encoder df w = (Inr (), w')
           \<and> getitem (heap w' ! df) ''condition'' =
               Inr (map (\<lambda>v. if v = Str ''poor'' then Num 1
                              else if v = Str ''tolerable'' then Num 2
                              else if v = Str ''satisfactory'' then Num 3
                              else if v = Str ''good'' then Num 4
                              else if v = Str ''excellent'' then Num 5
                              else NaN) s)"
proof -
  have enc: "series_map condition_codes v =
      (if v = Str ''poor'' then Num 1
       else if v = Str ''tolerable'' then Num 2
       else if v = Str ''satisfactory'' then Num 3
       else if v = Str ''good'' then Num 4
       else if v = Str ''excellent'' then Num 5
       else NaN)" for v
    by (cases v) (simp_all add: condition_codes_def)
  show ?thesis
    using assms by (simp add: condition_encoder_def enc)
qed

theorem condition_encoder_ordinal_witness:
  "\<exists>w'. condition_encoder 0 \<lparr>heap = [[(''condition'', [Str ''poor'', Str ''excellent'', Str ''mediocre'', NaN])]],
                              files = ([] :: (path \<times> unit blob) list), trace = []\<rparr> = (Inr (), w')
     \<and> getitem (heap w' ! 0) ''condition'' = Inr [Num 1, Num 5, NaN, NaN]"
  using condition_encoder_ordinal [of 0 "\<lparr>heap = [[(''condition'', [Str ''poor'', Str ''excellent'', Str ''mediocre'', NaN])]],
                              files = ([] :: (path \<times> unit blob) list), trace = []\<rparr>"
           "[Str ''poor'', Str ''excellent'', Str ''mediocre'', NaN]"]
  by (simp add: getitem_def)

subsection \<open>Dropping columns\<close>

lemma drop_columns_absent:
  "c \<in> set cs \<Longrightarrow> c \<notin> set (column_names d) \<Longrightarrow> drop_columns d cs = Inl KeyError"
  by (auto simp: drop_columns_def list_all_iff)

text \<open>
  Claim C8. When a column that \<open>drop_futile_columns\<close> lists (\<open>yr_renovated\<close>,
  \<open>prev_owner\<close>, \<open>datesold\<close>, \<open>sqft_above\<close>) is not a column of the table, the function
  raises KeyError and leaves the table as it was; likewise \<open>drop_unimportant_features\<close>
  for \<open>floors\<close>, \<open>similarity_scores\<close>, \<open>missingindicator_sqft_living15\<close>,
  \<open>missingindicator_sqft_lot15\<close>, \<open>quarter\<close> and \<open>weekday\<close>.
\<close>

theorem drop_steps_raise_on_absent_column:
  assumes "c \<notin> set (column_names (heap w ! df))"
  shows "(c \<in> set [''yr_renovated'', ''prev_owner'', ''datesold'', ''sqft_above'']
            \<longrightarrow> drop_futile_columns df w = (Inl KeyError, w))
       \<and> (c \<in> set [''floors'', ''similarity_scores'', ''missingindicator_sqft_living15'',
                     ''missingindicator_sqft_lot15'', ''quarter'', ''weekday'']
            \<longrightarrow> drop_unimportant_features df w = (Inl KeyError, w))"
proof (intro conjI impI)
  assume "c \<in> set [''yr_renovated'', ''prev_owner'', ''datesold'', ''sqft_above'']"
  then have "drop_columns (heap w ! df) [''yr_renovated'', ''prev_owner'', ''datesold'', ''sqft_above''] = Inl KeyError"
    using assms by (rule drop_columns_absent)
  then show "drop_futile_columns df w = (Inl KeyError, w)"
    by (simp add: drop_futile_columns_def)
next
  assume "c \<in> set [''floors'', ''similarity_scores'', ''missingindicator_sqft_living15'',
                     ''missingindicator_sqft_lot15'', ''quarter'', ''weekday'']"
  then have "drop_columns (heap w ! df) [''floors'', ''similarity_scores'', ''missingindicator_sqft_living15'',
                     ''missingindicator_sqft_lot15'', ''quarter'', ''weekday''] = Inl KeyError"
    using assms by (rule drop_columns_absent)
  then show "drop_unimportant_features df w = (Inl KeyError, w)"
    by (simp add: drop_unimportant_features_def)
qed

theorem drop_steps_raise_on_absent_column_witness:
  "drop_futile_columns 0
       \<lparr>heap = [[(''yr_renovated'', [Num 0]), (''prev_owner'', [NaN]), (''datesold'', [NaN]),
                 (''floors'', [Num 1])]],
        files = ([] :: (path \<times> unit blob) list), trace = []\<rparr>
     = (Inl KeyError,
        \<lparr>heap = [[(''yr_renovated'', [Num 0]), (''prev_owner'', [NaN]), (''datesold'', [NaN]),
                 (''floors'', [Num 1])]],
         files = [], trace = []\<rparr>)
   \<and> drop_unimportant_features 0
       \<lparr>heap = [[(''yr_renovated'', [Num 0]), (''prev_owner'', [NaN]), (''datesold'', [NaN]),
                 (''floors'', [Num 1])]],
        files = ([] :: (path \<times> unit blob) list), trace = []\<rparr>
     = (Inl KeyError,
        \<lparr>heap = [[(''yr_renovated'', [Num 0]), (''prev_owner'', [NaN]), (''datesold'', [NaN]),
                 (''floors'', [Num 1])]],
         files = [], trace = []\<rparr>)"
  using drop_steps_raise_on_absent_column [of "''sqft_above''"
          "\<lparr>heap = [[(''yr_renovated'', [Num 0]), (''prev_owner'', [NaN]), (''datesold'', [NaN]),
                 (''floors'', [Num 1])]],
            files = ([] :: (path \<times> unit blob) list), trace = []\<rparr>" 0]
        drop_steps_raise_on_absent_column [of "''weekday''"
          "\<lparr>heap = [[(''yr_renovated'', [Num 0]), (''prev_owner'', [NaN]), (''datesold'', [NaN]),
                 (''floors'', [Num 1])]],
            files = ([] :: (path \<times> unit blob) list), trace = []\<rparr>" 0]
  by (simp add: column_names_def)

subsection \<open>Correcting the unit of the distance\<close>

lemma mapE_total: "(\<And>x. x \<in> set xs \<Longrightarrow> f x = Inr (g x)) \<Longrightarrow> mapE f xs = Inr (map g xs)"
  by (induction xs) auto

lemma mapE_length: "mapE f xs = Inr ys \<Longrightarrow> length ys = length xs"
  by (induction xs arbitrary: ys) (auto split: sum.splits)

lemma select_by_mask:
  "map (\<lambda>(m, new, old). if m then new else old) (zip (map a s) (zip (map b s) s))
     = map (\<lambda>c. if a c then b c else c) s"
  by (induction s) auto

text \<open>
  Claim C4. On a table whose \<open>distance\<close> column holds numbers and missing values,
  \<open>correct_distance_unit\<close> does not raise; row by row, a distance \<open>d\<close> with \<open>100 \<le> d\<close>
  becomes \<open>d / 1000\<close>, and a distance below 100 or a missing one stays as it is. Every other
  column, the names and order of the columns, every other table of the store, the files
  and the trace are unchanged.
\<close>

theorem correct_distance_unit_rows:
  assumes "df < length (heap w)"
    and "getitem (heap w ! df) ''distance'' = Inr s"
    and "list_all numeric s"
  shows "\<exists>w'. correct_distance_unit df w = (Inr (), w')
           \<and> getitem (heap w' ! df) ''distance'' =
               Inr (map (\<lambda>c. case c of Num d \<Rightarrow> if 100 \<le> d then Num (d / 1000) else Num d
                                      | other \<Rightarrow> other) s)
           \<and> (\<forall>c. c \<noteq> ''distance'' \<longrightarrow> getitem (heap w' ! df) c = getitem (heap w ! df) c)
           \<and> column_names (heap w' ! df) = column_names (heap w ! df)
           \<and> length (heap w') = length (heap w)
           \<and> (\<forall>r. r \<noteq> df \<longrightarrow> heap w' ! r = heap w ! r)
           \<and> files w' = files w \<and> trace w' = trace w"
proof -
  let ?quot = "\<lambda>c. case c of Num d \<Rightarrow> Num (d / 1000) | other \<Rightarrow> other"
  let ?far = "\<lambda>c. case c of Num d \<Rightarrow> 100 \<le> d | other \<Rightarrow> False"
  have rhs: "mapE (div_num 1000) s = Inr (map ?quot s)"
  proof (rule mapE_total)
    fix x assume "x \<in> set s"
    with assms(3) have "numeric x" by (simp add: list_all_iff)
    then show "div_num 1000 x = Inr (?quot x)" by (cases x) simp_all
  qed
  have mask: "mapE (ge_num 100) s = Inr (map ?far s)"
  proof (rule mapE_total)
    fix x assume "x \<in> set s"
    with assms(3) have "numeric x" by (simp add: list_all_iff)
    then show "ge_num 100 x = Inr (?far x)" by (cases x) simp_all
  qed
  have pick: "(\<lambda>c. if ?far c then ?quot c else c)
      = (\<lambda>c. case c of Num d \<Rightarrow> if 100 \<le> d then Num (d / 1000) else Num d | other \<Rightarrow> other)"
    by (rule ext) (simp split: cell.splits)
  have run: "correct_distance_unit df w =
      (Inr (), w\<lparr>heap := (heap w)[df := setitem (heap w ! df) ''distance''
          (map (\<lambda>c. case c of Num d \<Rightarrow> if 100 \<le> d then Num (d / 1000) else Num d
                                      | other \<Rightarrow> other) s)]\<rparr>)"
    using assms(2) rhs mask
    by (simp add: correct_distance_unit_def select_by_mask pick)
  have names: "''distance'' \<in> set (column_names (heap w ! df))"
    using assms(2) by (rule getitem_Inr_column)
  show ?thesis
    using assms(1) names by (simp add: run column_names_setitem_present)
qed

theorem correct_distance_unit_rows_witness:
  "\<exists>w'. correct_distance_unit 0
           \<lparr>heap = [[(''floors'', [Num 1, Num 2, Num 1, Num 3]),
                     (''distance'', [Num 250, Num 12, Num 100, NaN])]],
            files = ([] :: (path \<times> unit blob) list), trace = []\<rparr> = (Inr (), w')
      \<and> getitem (heap w' ! 0) ''distance'' = Inr [Num (1 / 4), Num 12, Num (1 / 10), NaN]
      \<and> getitem (heap w' ! 0) ''floors'' = Inr [Num 1, Num 2, Num 1, Num 3]"
proof -
  let ?w = "\<lparr>heap = [[(''floors'', [Num 1, Num 2, Num 1, Num 3]),
                     (''distance'', [Num 250, Num 12, Num 100, NaN])]],
            files = ([] :: (path \<times> unit blob) list), trace = []\<rparr>"
  have a: "0 < length (heap ?w)" by simp
  have b: "getitem (heap ?w ! 0) ''distance'' = Inr [Num 250, Num 12, Num 100, NaN]"
    by (simp add: getitem_def)
  have c: "list_all numeric [Num 250, Num 12, Num 100, NaN]" by simp
  from correct_distance_unit_rows [OF a b c]
  obtain w' where w': "correct_distance_unit 0 ?w = (Inr (), w')"
    "getitem (heap w' ! 0) ''distance'' =
               Inr (map (\<lambda>c. case c of Num d \<Rightarrow> if 100 \<le> d then Num (d / 1000) else Num d
                                      | other \<Rightarrow> other) [Num 250, Num 12, Num 100, NaN])"
    "\<forall>c. c \<noteq> ''distance'' \<longrightarrow> getitem (heap w' ! 0) c = getitem (heap ?w ! 0) c"
    by blast
  from w'(3) have "getitem (heap w' ! 0) ''floors'' = getitem (heap ?w ! 0) ''floors''"
    by simp
  then have "getitem (heap w' ! 0) ''floors'' = Inr [Num 1, Num 2, Num 1, Num 3]"
    by (simp add: getitem_def)
  with w'(1,2) show ?thesis by simp
qed

subsection \<open>The merge changes the table of transactions\<close>

lemma getitem_rename_other:
  "c \<noteq> old \<Longrightarrow> c \<noteq> new \<Longrightarrow> getitem (rename_column old new d) c = getitem d c"
  by (induction d) (auto simp: getitem_def rename_column_def)

lemma column_names_rename:
  "column_names (rename_column old new d) = map (\<lambda>n. if n = old then new else n) (column_names d)"
  by (simp add: rename_column_def column_names_def case_prod_unfold comp_def)

lemma column_names_setitem_mem: "c \<in> set (column_names (setitem d c s))"
  by (induction d c s rule: setitem.induct) (auto simp: column_names_def)

lemma column_names_setitem_keeps:
  "n \<in> set (column_names d) \<Longrightarrow> n \<in> set (column_names (setitem d c s))"
  by (induction d c s rule: setitem.induct) (auto simp: column_names_def)

text \<open>
  Claim C10. \<open>dataframe_merger\<close> changes the table \<open>prices\<close> that its caller passed, in
  place. When that table has a \<open>datesold\<close> column that \<open>pd.to_datetime\<close> parses, then after
  the call, whether the merge itself succeeds or raises, the caller's table is the old one
  with the column \<open>date\<close> set to the parsed dates and the column \<open>building_year\<close> renamed
  to \<open>yr_built\<close>: it has a \<open>date\<close> column holding the parsed dates, no \<open>building_year\<close>
  column, a \<open>yr_built\<close> column if it had a \<open>building_year\<close> column, and it differs from the
  table before the call if that had no \<open>date\<close> column.
\<close>

theorem dataframe_merger_mutates_prices:
  assumes "prices < length (heap w)"
    and "getitem (heap w ! prices) ''datesold'' = Inr s"
    and "mapE (to_datetime L) s = Inr dt"
    and "dataframe_merger L prices house_data w = (r, w')"
  shows "heap w' ! prices
           = rename_column ''building_year'' ''yr_built'' (setitem (heap w ! prices) ''date'' dt)
       \<and> getitem (heap w' ! prices) ''date'' = Inr dt
       \<and> ''building_year'' \<notin> set (column_names (heap w' ! prices))
       \<and> (''building_year'' \<in> set (column_names (heap w ! prices))
            \<longrightarrow> ''yr_built'' \<in> set (column_names (heap w' ! prices)))
       \<and> (''date'' \<notin> set (column_names (heap w ! prices))
            \<longrightarrow> heap w' ! prices \<noteq> heap w ! prices)"
proof -
  let ?p = "heap w ! prices"
  let ?p' = "rename_column ''building_year'' ''yr_built'' (setitem ?p ''date'' dt)"
  let ?w1 = "w\<lparr>heap := (heap w)[prices := ?p']\<rparr>"
  have step: "dataframe_merger L prices house_data w =
      bindE (liftE (merge_inner ?p' (heap ?w1 ! house_data)
               [''postcode'', ''area'', ''date'', ''yr_built'', ''bedrooms''])) alloc ?w1"
    using assms(1-3) by (simp add: dataframe_merger_def bindE_apply)
  have stored: "heap w' ! prices = ?p'"
  proof (cases "merge_inner ?p' (heap ?w1 ! house_data)
               [''postcode'', ''area'', ''date'', ''yr_built'', ''bedrooms'']")
    case (Inl e)
    with step assms(4) have "w' = ?w1" by simp
    with assms(1) show ?thesis by simp
  next
    case (Inr d)
    with step assms(4) have "w' = ?w1\<lparr>heap := heap ?w1 @ [d]\<rparr>" by simp
    with assms(1) show ?thesis by (simp add: nth_append)
  qed
  have date: "getitem ?p' ''date'' = Inr dt"
    by (simp add: getitem_rename_other)
  have gone: "''building_year'' \<notin> set (column_names ?p')"
    by (auto simp: column_names_rename)
  have renamed: "''yr_built'' \<in> set (column_names ?p')"
    if "''building_year'' \<in> set (column_names ?p)"
  proof -
    from that have "''building_year'' \<in> set (column_names (setitem ?p ''date'' dt))"
      by (rule column_names_setitem_keeps)
    then show ?thesis by (force simp: column_names_rename)
  qed
  have differs: "?p' \<noteq> ?p" if "''date'' \<notin> set (column_names ?p)"
  proof
    assume "?p' = ?p"
    then have "getitem ?p ''date'' = Inr dt" using date by simp
    then have "''date'' \<in> set (column_names ?p)" by (rule getitem_Inr_column)
    with that show False by simp
  qed
  from stored date gone renamed differs show ?thesis by simp
qed

theorem dataframe_merger_mutates_prices_witness:
  "heap (snd (dataframe_merger demo_lib 0 1
            \<lparr>heap = [demo_deals, demo_house_info], files = [], trace = []\<rparr>)) ! 0
     = [(''postcode'', [Str ''A1'']), (''area'', [Str ''north'']),
        (''datesold'', [Str ''2020-03-15'']), (''price'', [Num 300000]),
        (''yr_built'', [Num 1990]), (''bedrooms'', [Num 3]), (''date'', [Ts 2020 3 15])]"
proof -
  let ?w = "\<lparr>heap = [demo_deals, demo_house_info], files = ([] :: (path \<times> real blob) list), trace = []\<rparr>"
  have a: "0 < length (heap ?w)" by simp
  have b: "getitem (heap ?w ! 0) ''datesold'' = Inr [Str ''2020-03-15'']"
    by (simp add: getitem_def demo_deals_def)
  have c: "mapE (to_datetime demo_lib) [Str ''2020-03-15''] = Inr [Ts 2020 3 15]"
    by (simp add: demo_lib_def digits_def)
  have d: "dataframe_merger demo_lib 0 1 ?w
      = (fst (dataframe_merger demo_lib 0 1 ?w), snd (dataframe_merger demo_lib 0 1 ?w))"
    by simp
  from dataframe_merger_mutates_prices [OF a b c d]
  show ?thesis by (simp add: demo_deals_def rename_column_def)
qed

subsection \<open>What each step leaves alone\<close>

lemma liftE_run [simp]: "liftE r w = (r, w)"
  by (cases r) simp_all

lemma touches_only_refl [simp]: "touches_only X w w"
  by (simp add: touches_only_def)

lemma touches_only_trans:
  "touches_only X w w1 \<Longrightarrow> touches_only X w1 w2 \<Longrightarrow> touches_only X w w2"
  by (simp add: touches_only_def)

lemma touches_only_update [simp]: "touches_only X w (w\<lparr>heap := (heap w)[X := d]\<rparr>)"
  by (simp add: touches_only_def)

lemma touches_only_trace [simp]: "touches_only X w (w\<lparr>trace := t\<rparr>)"
  by (simp add: touches_only_def)

lemma touches_only_files [simp]: "touches_only X w (w\<lparr>files := f\<rparr>)"
  by (simp add: touches_only_def)

lemma silent_refl [simp]: "silent w w"
  by (simp add: silent_def)

lemma silent_trans: "silent w w1 \<Longrightarrow> silent w1 w2 \<Longrightarrow> silent w w2"
  by (simp add: silent_def)

lemma silent_heap [simp]: "silent w (w\<lparr>heap := h\<rparr>)"
  by (simp add: silent_def)

lemma impute_missing_frame:
  "impute_missing L X w = (r, w') \<Longrightarrow> touches_only X w w' \<and> silent w w'"
  by (auto simp: impute_missing_def Let_def elim!: bindE_cases)

lemma condition_encoder_frame:
  "condition_encoder X w = (r, w') \<Longrightarrow> touches_only X w w' \<and> silent w w'"
  by (auto simp: condition_encoder_def elim!: bindE_cases)

lemma drop_unimportant_features_frame:
  "drop_unimportant_features X w = (r, w') \<Longrightarrow> touches_only X w w' \<and> silent w w'"
  by (auto simp: drop_unimportant_features_def Let_def elim!: bindE_cases)

lemma datetime_decomposer_frame:
  "datetime_decomposer X c w = (r, w') \<Longrightarrow> touches_only X w w' \<and> silent w w'"
  unfolding datetime_decomposer_def
  by (elim bindE_cases; simp add: touches_only_def silent_def; force)

lemma store_features_run:
  "store_features X p w =
     (Inr (), w\<lparr>trace := trace w @ [Wrote p, Printed (''Features stored in '' @ path_str p)],
                files := (p, TableFile (heap w ! X)) # files w\<rparr>)"
  by (simp add: store_features_def write_file_def bindE_apply)

lemma store_targets_run:
  "store_targets y p w =
     (Inr (), w\<lparr>trace := trace w @ [Wrote p, Printed (''Targets stored in '' @ path_str p)],
                files := (p, TargetsFile y) # files w\<rparr>)"
  by (simp add: store_targets_def write_file_def bindE_apply)

lemma store_encoder_run:
  "store_encoder enc p w =
     (Inr (), w\<lparr>trace := trace w @ [Wrote p, Printed (''Encoder stored in '' @ path_str p)],
                files := (p, PickleFile (Some enc)) # files w\<rparr>)"
  by (simp add: store_encoder_def write_file_def bindE_apply)

lemma load_pickle_run:
  "load_pickle p w =
     ((case map_of (files w) p of
         None \<Rightarrow> Inl FileNotFoundError
       | Some (PickleFile obj) \<Rightarrow> Inr obj
       | Some _ \<Rightarrow> Inl UnpicklingError),
      w\<lparr>trace := trace w @ [Opened p]\<rparr>)"
  by (simp add: load_pickle_def bindE_apply split: option.splits blob.splits)

lemma target_encode_apply_frame:
  assumes "target_encode L X cols None enc w = (r, w')"
  shows "touches_only X w w' \<and> files w' = files w
       \<and> (trace w' = trace w \<or> trace w' = trace w @ [Transformed cols])
       \<and> (\<forall>v. r = Inr v \<longrightarrow> trace w' = trace w @ [Transformed cols])"
  using assms
  by (auto simp: target_encode_def Let_def bindE_apply touches_only_def
           split: sum.splits option.splits)

lemma target_encode_fit_frame:
  assumes "target_encode L X cols (Some y) enc w = (r, w')"
  shows "touches_only X w w' \<and> files w' = files w
       \<and> (trace w' = trace w \<or> trace w' = trace w @ [Fitted cols]
            \<or> trace w' = trace w @ [Fitted cols, Transformed cols])
       \<and> (\<forall>v. r = Inr v \<longrightarrow> trace w' = trace w @ [Fitted cols, Transformed cols])"
  using assms
  by (auto simp: target_encode_def Let_def bindE_apply touches_only_def
           split: sum.splits option.splits)

lemma touches_only_take:
  assumes "touches_only X w w'" and "n \<le> X"
  shows "take n (heap w') = take n (heap w)"
  using assms by (auto simp: touches_only_def intro!: nth_equalityI)

lemma separate_X_and_y_frame:
  assumes "separate_X_and_y L df target w = (r, w')"
  shows "take (length (heap w)) (heap w') = heap w \<and> silent w w'
       \<and> (\<forall>X y. r = Inr (X, y) \<longrightarrow> X = Suc (length (heap w)) \<and> length (heap w') = Suc X)"
  using assms unfolding separate_X_and_y_def
  by (elim bindE_cases; simp add: silent_def; force)

lemma bindE_runD:
  "bindE m f w = (r, w') \<Longrightarrow>
     (\<exists>e. m w = (Inl e, w') \<and> r = Inl e) \<or> (\<exists>x w1. m w = (Inr x, w1) \<and> f x w1 = (r, w'))"
  by (auto simp: bindE_def split: prod.splits sum.splits)

lemma engineer_frame:
  assumes "bindE (impute_missing L X) (\<lambda>_.
           bindE (datetime_decomposer X c) (\<lambda>_.
           bindE (condition_encoder X) (\<lambda>_.
           bindE (drop_unimportant_features X) k))) w = (r, w')"
  shows "(\<exists>e. r = Inl e \<and> touches_only X w w' \<and> silent w w')
       \<or> (\<exists>w2. touches_only X w w2 \<and> silent w w2 \<and> k () w2 = (r, w'))"
proof -
  from assms consider
      (a) e where "impute_missing L X w = (Inl e, w')" "r = Inl e"
    | (b) w1 where "impute_missing L X w = (Inr (), w1)"
        "bindE (datetime_decomposer X c) (\<lambda>_.
           bindE (condition_encoder X) (\<lambda>_.
           bindE (drop_unimportant_features X) k)) w1 = (r, w')"
    by (auto dest!: bindE_runD)
  then show ?thesis
  proof cases
    case a
    then show ?thesis using impute_missing_frame by blast
  next
    case b
    from b(1) have f1: "touches_only X w w1" "silent w w1"
      using impute_missing_frame by blast+
    from b(2) consider
        (c) e where "datetime_decomposer X c w1 = (Inl e, w')" "r = Inl e"
      | (d) w2 where "datetime_decomposer X c w1 = (Inr (), w2)"
          "bindE (condition_encoder X) (\<lambda>_.
             bindE (drop_unimportant_features X) k) w2 = (r, w')"
      by (auto dest!: bindE_runD)
    then show ?thesis
    proof cases
      case c
      then have "touches_only X w1 w'" "silent w1 w'"
        using datetime_decomposer_frame by blast+
      with f1 c(2) show ?thesis
        by (blast intro: touches_only_trans silent_trans)
    next
      case d
      from d(1) have "touches_only X w1 w2" "silent w1 w2"
        using datetime_decomposer_frame by blast+
      with f1 have f2: "touches_only X w w2" "silent w w2"
        by (blast intro: touches_only_trans silent_trans)+
      from d(2) consider
          (e) e where "condition_encoder X w2 = (Inl e, w')" "r = Inl e"
        | (f) w3 where "condition_encoder X w2 = (Inr (), w3)"
            "bindE (drop_unimportant_features X) k w3 = (r, w')"
        by (auto dest!: bindE_runD)
      then show ?thesis
      proof cases
        case e
        then have "touches_only X w2 w'" "silent w2 w'"
          using condition_encoder_frame by blast+
        with f2 e(2) show ?thesis
          by (blast intro: touches_only_trans silent_trans)
      next
        case f
        from f(1) have "touches_only X w2 w3" "silent w2 w3"
          using condition_encoder_frame by blast+
        with f2 have f3: "touches_only X w w3" "silent w w3"
          by (blast intro: touches_only_trans silent_trans)+
        from f(2) consider
            (g) e where "drop_unimportant_features X w3 = (Inl e, w')" "r = Inl e"
          | (h) w4 where "drop_unimportant_features X w3 = (Inr (), w4)" "k () w4 = (r, w')"
          by (auto dest!: bindE_runD)
        then show ?thesis
        proof cases
          case g
          then have "touches_only X w3 w'" "silent w3 w'"
            using drop_unimportant_features_frame by blast+
          with f3 g(2) show ?thesis
            by (blast intro: touches_only_trans silent_trans)
        next
          case h
          from h(1) have "touches_only X w3 w4" "silent w3 w4"
            using drop_unimportant_features_frame by blast+
          with f3 have "touches_only X w w4" "silent w w4"
            by (blast intro: touches_only_trans silent_trans)+
          with h(2) show ?thesis by blast
        qed
      qed
    qed
  qed
qed

lemma persist_apply_run:
  assumes "bindE (liftE (path_join fsp (Some ffn))) (\<lambda>fp.
           bindE (liftE (path_join fsp tfn)) (\<lambda>tp.
           bindE (liftE (path_join (fsp @ [''encoders'']) (Some efn))) (\<lambda>ep.
           bindE (load_pickle ep) (\<lambda>t_encoder.
           bindE (target_encode L X cols None t_encoder) (\<lambda>_.
           bindE (store_features X fp) (\<lambda>_.
           if ti then bindE (local_y y) (\<lambda>yv. store_targets yv tp)
           else returnE ())))))) w = (r, w')"
    and "ti \<longrightarrow> y \<noteq> None"
  shows "touches_only X w w' \<and>
     ((tfn = None \<and> r = Inl TypeError \<and> silent w w')
      \<or> (tfn \<noteq> None \<and> (\<exists>e. r = Inl e) \<and> files w' = files w
            \<and> trace w' = trace w @ [Opened (fsp @ [''encoders'', efn])]
            \<and> (map_of (files w) (fsp @ [''encoders'', efn]) = None \<longrightarrow> r = Inl FileNotFoundError))
      \<or> (tfn \<noteq> None \<and> map_of (files w) (fsp @ [''encoders'', efn]) \<noteq> None
            \<and> (\<exists>e. r = Inl e) \<and> files w' = files w
            \<and> trace w' = trace w @ [Opened (fsp @ [''encoders'', efn]), Transformed cols])
      \<or> (tfn \<noteq> None \<and> map_of (files w) (fsp @ [''encoders'', efn]) \<noteq> None
            \<and> r = Inr ()
            \<and> (\<exists>d. files w' = (if ti then [(fsp @ [the tfn], TargetsFile (the y))] else [])
                                @ (fsp @ [ffn], TableFile d) # files w)
            \<and> trace w' = trace w @ [Opened (fsp @ [''encoders'', efn]), Transformed cols,
                   Wrote (fsp @ [ffn]), Printed (''Features stored in '' @ path_str (fsp @ [ffn]))]
                 @ (if ti then [Wrote (fsp @ [the tfn]),
                                Printed (''Targets stored in '' @ path_str (fsp @ [the tfn]))]
                    else [])))"
proof (cases tfn)
  case None
  with assms show ?thesis by (simp add: path_join_def silent_def)
next
  case (Some tn)
  let ?ep = "fsp @ [''encoders'', efn]"
  let ?w1 = "w\<lparr>trace := trace w @ [Opened ?ep]\<rparr>"
  show ?thesis
  proof (cases "map_of (files w) ?ep")
    case None
    with assms Some have "r = Inl FileNotFoundError" "w' = ?w1"
      by (simp_all add: path_join_def load_pickle_run bindE_apply)
    with Some None show ?thesis by simp
  next
    case (Some b)
    note present = this
    show ?thesis
    proof (cases b)
      case (PickleFile obj)
      with assms \<open>tfn = Some tn\<close> present
      have tail: "bindE (target_encode L X cols None obj) (\<lambda>_.
           bindE (store_features X (fsp @ [ffn])) (\<lambda>_.
           if ti then bindE (local_y y) (\<lambda>yv. store_targets yv (fsp @ [tn]))
           else returnE ())) ?w1 = (r, w')"
        by (simp add: path_join_def load_pickle_run bindE_apply)
      then consider
          (a) e where "target_encode L X cols None obj ?w1 = (Inl e, w')" "r = Inl e"
        | (b) v w2 where "target_encode L X cols None obj ?w1 = (Inr v, w2)"
            "bindE (store_features X (fsp @ [ffn])) (\<lambda>_.
               if ti then bindE (local_y y) (\<lambda>yv. store_targets yv (fsp @ [tn]))
               else returnE ()) w2 = (r, w')"
        by (auto dest!: bindE_runD)
      then show ?thesis
      proof cases
        case a
        from target_encode_apply_frame [OF a(1)] a(2) \<open>tfn = Some tn\<close> present
        show ?thesis by (auto simp: touches_only_def)
      next
        case b
        from target_encode_apply_frame [OF b(1)]
        have t: "touches_only X ?w1 w2" "files w2 = files w"
          "trace w2 = trace w @ [Opened ?ep, Transformed cols]"
          by simp_all
        from b(2) assms(2) have fin: "r = Inr ()"
          "w' = (if ti then w2\<lparr>trace := trace w2 @ [Wrote (fsp @ [ffn]),
                      Printed (''Features stored in '' @ path_str (fsp @ [ffn])),
                      Wrote (fsp @ [tn]), Printed (''Targets stored in '' @ path_str (fsp @ [tn]))],
                    files := (fsp @ [tn], TargetsFile (the y)) # (fsp @ [ffn], TableFile (heap w2 ! X)) # files w2\<rparr>
                else w2\<lparr>trace := trace w2 @ [Wrote (fsp @ [ffn]),
                      Printed (''Features stored in '' @ path_str (fsp @ [ffn]))],
                    files := (fsp @ [ffn], TableFile (heap w2 ! X)) # files w2\<rparr>)"
          by (auto simp: store_features_run store_targets_run local_y_def bindE_apply
                   split: if_splits)
        with t \<open>tfn = Some tn\<close> present show ?thesis
          by (auto simp: touches_only_def)
      qed
    next
      case (TableFile d)
      with assms \<open>tfn = Some tn\<close> present have "r = Inl UnpicklingError" "w' = ?w1"
        by (simp_all add: path_join_def load_pickle_run bindE_apply)
      with \<open>tfn = Some tn\<close> present show ?thesis by simp
    next
      case (TargetsFile t)
      with assms \<open>tfn = Some tn\<close> present have "r = Inl UnpicklingError" "w' = ?w1"
        by (simp_all add: path_join_def load_pickle_run bindE_apply)
      with \<open>tfn = Some tn\<close> present show ?thesis by simp
    qed
  qed
qed

lemma prepare_frame:
  assumes "(if ti then bindE (separate_X_and_y L df ''price'') (\<lambda>(X, y). returnE (X, Some y))
            else if fe then raise ValueError
            else bindE (deref df) (\<lambda>d. bindE (alloc d) (\<lambda>X. returnE (X, None)))) w = (r, w1)"
  shows "take (length (heap w)) (heap w1) = heap w \<and> silent w w1
       \<and> (\<forall>X y. r = Inr (X, y) \<longrightarrow>
             length (heap w) \<le> X \<and> X < length (heap w1) \<and> (ti \<longrightarrow> y \<noteq> None))"
proof (cases ti)
  case True
  with assms have "bindE (separate_X_and_y L df ''price'') (\<lambda>(X, y). returnE (X, Some y)) w = (r, w1)"
    by simp
  then consider
      (a) e where "separate_X_and_y L df ''price'' w = (Inl e, w1)" "r = Inl e"
    | (b) X y where "separate_X_and_y L df ''price'' w = (Inr (X, y), w1)" "r = Inr (X, Some y)"
    by (auto dest!: bindE_runD)
  then show ?thesis
  proof cases
    case a
    from separate_X_and_y_frame [OF a(1)] a(2) show ?thesis by simp
  next
    case b
    from separate_X_and_y_frame [OF b(1)] b(2) True show ?thesis by simp
  qed
next
  case False
  with assms show ?thesis
    by (cases fe) (auto simp: bindE_apply silent_def)
qed

lemma persist_fit_frame:
  assumes "bindE (liftE (path_join fsp (Some ffn))) (\<lambda>fp.
           bindE (liftE (path_join fsp tfn)) (\<lambda>tp.
           bindE (liftE (path_join (fsp @ [''encoders'']) (Some efn))) (\<lambda>ep.
           bindE (local_y y) (\<lambda>yv.
           bindE (target_encode L X cols (Some yv) None) (\<lambda>t_encoder.
           bindE (store_features X fp) (\<lambda>_.
           bindE (store_targets yv tp) (\<lambda>_.
           store_encoder t_encoder ep))))))) w = (r, w')"
  shows "touches_only X w w'"
proof (cases tfn)
  case None
  with assms show ?thesis by (simp add: path_join_def)
next
  case (Some tn)
  show ?thesis
  proof (cases y)
    case None
    with assms Some show ?thesis by (simp add: path_join_def local_y_def)
  next
    case (Some yv)
    with assms \<open>tfn = Some tn\<close>
    have "bindE (target_encode L X cols (Some yv) None) (\<lambda>t_encoder.
           bindE (store_features X (fsp @ [ffn])) (\<lambda>_.
           bindE (store_targets yv (fsp @ [tn])) (\<lambda>_.
           store_encoder t_encoder (fsp @ [''encoders'', efn])))) w = (r, w')"
      by (simp add: path_join_def local_y_def)
    then consider
        (a) e where "target_encode L X cols (Some yv) None w = (Inl e, w')"
      | (b) v w2 where "target_encode L X cols (Some yv) None w = (Inr v, w2)"
          "bindE (store_features X (fsp @ [ffn])) (\<lambda>_.
           bindE (store_targets yv (fsp @ [tn])) (\<lambda>_.
           store_encoder v (fsp @ [''encoders'', efn]))) w2 = (r, w')"
      by (auto dest!: bindE_runD)
    then show ?thesis
    proof cases
      case a
      from target_encode_fit_frame [OF a] show ?thesis by simp
    next
      case b
      from target_encode_fit_frame [OF b(1)] have "touches_only X w w2" by simp
      moreover from b(2) have "touches_only X w2 w'"
        by (auto simp: store_features_run store_targets_run store_encoder_run bindE_apply
              touches_only_def)
      ultimately show ?thesis by (rule touches_only_trans)
    qed
  qed
qed

lemma pipeline_heap:
  assumes "feature_engineering_pipeline L df fsp ffn efn tfn fe ti w = (r, w')"
  shows "take (length (heap w)) (heap w') = heap w"
proof -
  from assms consider
      (a) e where "(if ti then bindE (separate_X_and_y L df ''price'') (\<lambda>(X, y). returnE (X, Some y))
            else if fe then raise ValueError
            else bindE (deref df) (\<lambda>d. bindE (alloc d) (\<lambda>X. returnE (X, None)))) w = (Inl e, w')"
    | (b) X y w1 where "(if ti then bindE (separate_X_and_y L df ''price'') (\<lambda>(X, y). returnE (X, Some y))
            else if fe then raise ValueError
            else bindE (deref df) (\<lambda>d. bindE (alloc d) (\<lambda>X. returnE (X, None)))) w = (Inr (X, y), w1)"
        "bindE (impute_missing L X) (\<lambda>_.
           bindE (datetime_decomposer X ''date'') (\<lambda>_.
           bindE (condition_encoder X) (\<lambda>_.
           bindE (drop_unimportant_features X) (\<lambda>_.
     bindE (liftE (path_join fsp (Some ffn))) (\<lambda>feature_file_path.
     bindE (liftE (path_join fsp tfn)) (\<lambda>target_file_path.
     bindE (liftE (path_join (fsp @ [''encoders'']) (Some efn))) (\<lambda>encoder_file_path.
     if fe then
       bindE (local_y y) (\<lambda>yv.
       bindE (target_encode L X [''postcode'', ''area''] (Some yv) None) (\<lambda>t_encoder.
       bindE (store_features X feature_file_path) (\<lambda>_.
       bindE (store_targets yv target_file_path) (\<lambda>_.
       store_encoder t_encoder encoder_file_path))))
     else
       bindE (load_pickle encoder_file_path) (\<lambda>t_encoder.
       bindE (target_encode L X [''postcode'', ''area''] None t_encoder) (\<lambda>_.
       bindE (store_features X feature_file_path) (\<lambda>_.
       if ti
       then bindE (local_y y) (\<lambda>yv. store_targets yv target_file_path)
       else returnE ())))))))))) w1 = (r, w')"
    unfolding feature_engineering_pipeline_def
    by (auto dest!: bindE_runD)
  then show ?thesis
  proof cases
    case a
    from prepare_frame [OF a] show ?thesis by simp
  next
    case b
    from prepare_frame [OF b(1)]
    have p: "take (length (heap w)) (heap w1) = heap w" "length (heap w) \<le> X" "ti \<longrightarrow> y \<noteq> None"
      by simp_all
    have "touches_only X w1 w'"
    proof -
      from engineer_frame [OF b(2)] consider
          (c) "touches_only X w1 w'"
        | (d) w2 where "touches_only X w1 w2"
            "(bindE (liftE (path_join fsp (Some ffn))) (\<lambda>feature_file_path.
     bindE (liftE (path_join fsp tfn)) (\<lambda>target_file_path.
     bindE (liftE (path_join (fsp @ [''encoders'']) (Some efn))) (\<lambda>encoder_file_path.
     if fe then
       bindE (local_y y) (\<lambda>yv.
       bindE (target_encode L X [''postcode'', ''area''] (Some yv) None) (\<lambda>t_encoder.
       bindE (store_features X feature_file_path) (\<lambda>_.
       bindE (store_targets yv target_file_path) (\<lambda>_.
       store_encoder t_encoder encoder_file_path))))
     else
       bindE (load_pickle encoder_file_path) (\<lambda>t_encoder.
       bindE (target_encode L X [''postcode'', ''area''] None t_encoder) (\<lambda>_.
       bindE (store_features X feature_file_path) (\<lambda>_.
       if ti
       then bindE (local_y y) (\<lambda>yv. store_targets yv target_file_path)
       else returnE ())))))) w2) = (r, w')"
        by blast
      then show ?thesis
      proof cases
        case c
        then show ?thesis .
      next
        case d
        have "touches_only X w2 w'"
        proof (cases fe)
          case True
          with d(2) show ?thesis by (auto dest: persist_fit_frame)
        next
          case False
          with d(2) p(3) show ?thesis by (auto dest: persist_apply_run)
        qed
        with d(1) show ?thesis by (rule touches_only_trans)
      qed
    qed
    then have "take (length (heap w)) (heap w') = take (length (heap w)) (heap w1)"
      using p(2) by (rule touches_only_take)
    with p(1) show ?thesis by simp
  qed
qed

subsection \<open>The split works on a copy\<close>

lemma take_prefix_nth: "take n xs = ys \<Longrightarrow> i < length ys \<Longrightarrow> xs ! i = ys ! i"
  using nth_take [of i n xs] by auto

lemma astype_float64_numeric: "mapE (astype_float64 parse) col = Inr y \<Longrightarrow> list_all numeric y"
proof (induction col arbitrary: y)
  case Nil
  then show ?case by simp
next
  case (Cons c col)
  then show ?case
    by (cases c) (auto split: sum.splits option.splits)
qed

text \<open>
  Claim C9. \<open>separate_X_and_y\<close> copies the table it is given and splits the copy: when the
  target column exists and converts to \<open>float64\<close>, the call returns as \<open>y\<close> the converted
  values of that column (numbers and missing values only) and as \<open>X\<close> a new table holding
  all the other columns, in their order. The table passed in is the same after the call,
  and it is the same after a whole run of \<open>feature_engineering_pipeline\<close>, whatever the
  flags and however the run ends: every later step changes the new table \<open>X\<close> only.
\<close>

theorem separate_X_and_y_defensive_copy:
  assumes "df < length (heap w)"
  shows "(\<forall>col y. getitem (heap w ! df) target = Inr col
             \<longrightarrow> mapE (astype_float64 (float_of_str L)) col = Inr y
             \<longrightarrow> separate_X_and_y L df target w
                   = (Inr (Suc (length (heap w)), y),
                      w\<lparr>heap := heap w @ [heap w ! df,
                                           filter (\<lambda>(n, s). n \<noteq> target) (heap w ! df)]\<rparr>)
                 \<and> list_all numeric y)
       \<and> heap (snd (separate_X_and_y L df target w)) ! df = heap w ! df
       \<and> heap (snd (feature_engineering_pipeline L df fsp ffn efn tfn fe ti w)) ! df
           = heap w ! df"
proof (intro conjI allI impI)
  fix col y
  assume col: "getitem (heap w ! df) target = Inr col"
    and y: "mapE (astype_float64 (float_of_str L)) col = Inr y"
  from assms col y
  show "separate_X_and_y L df target w
          = (Inr (Suc (length (heap w)), y),
             w\<lparr>heap := heap w @ [heap w ! df, filter (\<lambda>(n, s). n \<noteq> target) (heap w ! df)]\<rparr>)"
    by (simp add: separate_X_and_y_def bindE_apply nth_append)
  from y show "list_all numeric y" by (rule astype_float64_numeric)
next
  obtain r w' where run: "separate_X_and_y L df target w = (r, w')"
    by (cases "separate_X_and_y L df target w")
  from separate_X_and_y_frame [OF run]
  have "take (length (heap w)) (heap w') = heap w" by simp
  then have "heap w' ! df = heap w ! df" using assms by (rule take_prefix_nth)
  then show "heap (snd (separate_X_and_y L df target w)) ! df = heap w ! df"
    by (simp add: run)
next
  obtain r w' where run: "feature_engineering_pipeline L df fsp ffn efn tfn fe ti w = (r, w')"
    by (cases "feature_engineering_pipeline L df fsp ffn efn tfn fe ti w")
  from pipeline_heap [OF run]
  have keep: "take (length (heap w)) (heap w') = heap w" .
  then have "heap w' ! df = heap w ! df" using assms by (rule take_prefix_nth)
  then show "heap (snd (feature_engineering_pipeline L df fsp ffn efn tfn fe ti w)) ! df
      = heap w ! df"
    by (simp add: run)
qed

theorem separate_X_and_y_defensive_copy_witness:
  "separate_X_and_y demo_lib 0 ''price''
       \<lparr>heap = [[(''floors'', [Num 1, Num 2]), (''price'', [Num 300000, NaN])]],
        files = demo_files, trace = []\<rparr>
     = (Inr (2, [Num 300000, NaN]),
        \<lparr>heap = [[(''floors'', [Num 1, Num 2]), (''price'', [Num 300000, NaN])],
                 [(''floors'', [Num 1, Num 2]), (''price'', [Num 300000, NaN])],
                 [(''floors'', [Num 1, Num 2])]],
         files = demo_files, trace = []\<rparr>)
   \<and> heap (snd (feature_engineering_pipeline demo_lib 0 [''store''] ''X.parquet'' ''enc.pkl''
                  (Some ''y.csv'') False True
                  \<lparr>heap = [[(''floors'', [Num 1, Num 2]), (''price'', [Num 300000, NaN])]],
                   files = demo_files, trace = []\<rparr>)) ! 0
       = [(''floors'', [Num 1, Num 2]), (''price'', [Num 300000, NaN])]"
proof -
  let ?w = "\<lparr>heap = [[(''floors'', [Num 1, Num 2]), (''price'', [Num 300000, NaN])]],
        files = demo_files, trace = []\<rparr>"
  have a: "0 < length (heap ?w)" by simp
  have b: "getitem (heap ?w ! 0) ''price'' = Inr [Num 300000, NaN]"
    by (simp add: getitem_def)
  have c: "mapE (astype_float64 (float_of_str demo_lib)) [Num 300000, NaN] = Inr [Num 300000, NaN]"
    by simp
  from separate_X_and_y_defensive_copy [OF a, of "''price''" demo_lib "[''store'']" "''X.parquet''"
      "''enc.pkl''" "Some ''y.csv''" False True] b c
  show ?thesis by simp
qed

subsection \<open>A run that applies a stored encoder\<close>

lemma silent_trace: "silent w w' \<Longrightarrow> trace w' = trace w"
  by (simp add: silent_def)

lemma silent_files: "silent w w' \<Longrightarrow> files w' = files w"
  by (simp add: silent_def)

lemma pipeline_apply_run:
  assumes "feature_engineering_pipeline L df fsp ffn efn tfn False ti w = (r, w')"
  shows "((\<exists>e. r = Inl e) \<and> silent w w')
      \<or> (tfn \<noteq> None \<and> (\<exists>e. r = Inl e) \<and> files w' = files w
            \<and> trace w' = trace w @ [Opened (fsp @ [''encoders'', efn])]
            \<and> (map_of (files w) (fsp @ [''encoders'', efn]) = None \<longrightarrow> r = Inl FileNotFoundError))
      \<or> (tfn \<noteq> None \<and> map_of (files w) (fsp @ [''encoders'', efn]) \<noteq> None
            \<and> (\<exists>e. r = Inl e) \<and> files w' = files w
            \<and> trace w' = trace w @ [Opened (fsp @ [''encoders'', efn]),
                                      Transformed [''postcode'', ''area'']])
      \<or> (tfn \<noteq> None \<and> map_of (files w) (fsp @ [''encoders'', efn]) \<noteq> None
            \<and> r = Inr ()
            \<and> (\<exists>d y. files w' = (if ti then [(fsp @ [the tfn], TargetsFile y)] else [])
                                @ (fsp @ [ffn], TableFile d) # files w)
            \<and> trace w' = trace w @ [Opened (fsp @ [''encoders'', efn]),
                   Transformed [''postcode'', ''area''],
                   Wrote (fsp @ [ffn]), Printed (''Features stored in '' @ path_str (fsp @ [ffn]))]
                 @ (if ti then [Wrote (fsp @ [the tfn]),
                                Printed (''Targets stored in '' @ path_str (fsp @ [the tfn]))]
                    else []))"
proof -
  from assms consider
      (a) e where "(if ti then bindE (separate_X_and_y L df ''price'') (\<lambda>(X, y). returnE (X, Some y))
            else if False then raise ValueError
            else bindE (deref df) (\<lambda>d. bindE (alloc d) (\<lambda>X. returnE (X, None)))) w = (Inl e, w')"
          "r = Inl e"
    | (b) X y w1 where "(if ti then bindE (separate_X_and_y L df ''price'') (\<lambda>(X, y). returnE (X, Some y))
            else if False then raise ValueError
            else bindE (deref df) (\<lambda>d. bindE (alloc d) (\<lambda>X. returnE (X, None)))) w = (Inr (X, y), w1)"
        "bindE (impute_missing L X) (\<lambda>_.
           bindE (datetime_decomposer X ''date'') (\<lambda>_.
           bindE (condition_encoder X) (\<lambda>_.
           bindE (drop_unimportant_features X) (\<lambda>_.
     bindE (liftE (path_join fsp (Some ffn))) (\<lambda>feature_file_path.
     bindE (liftE (path_join fsp tfn)) (\<lambda>target_file_path.
     bindE (liftE (path_join (fsp @ [''encoders'']) (Some efn))) (\<lambda>encoder_file_path.
       bindE (load_pickle encoder_file_path) (\<lambda>t_encoder.
       bindE (target_encode L X [''postcode'', ''area''] None t_encoder) (\<lambda>_.
       bindE (store_features X feature_file_path) (\<lambda>_.
       if ti
       then bindE (local_y y) (\<lambda>yv. store_targets yv target_file_path)
       else returnE ())))))))))) w1 = (r, w')"
    unfolding feature_engineering_pipeline_def
    by (auto dest!: bindE_runD)
  then show ?thesis
  proof cases
    case a
    from prepare_frame [OF a(1)] a(2) show ?thesis by simp
  next
    case b
    from prepare_frame [OF b(1)]
    have p: "silent w w1" "ti \<longrightarrow> y \<noteq> None"
      by simp_all
    from engineer_frame [OF b(2)] consider
        (c) e where "r = Inl e" "silent w1 w'"
      | (d) w2 where "silent w1 w2"
          "(bindE (liftE (path_join fsp (Some ffn))) (\<lambda>feature_file_path.
     bindE (liftE (path_join fsp tfn)) (\<lambda>target_file_path.
     bindE (liftE (path_join (fsp @ [''encoders'']) (Some efn))) (\<lambda>encoder_file_path.
       bindE (load_pickle encoder_file_path) (\<lambda>t_encoder.
       bindE (target_encode L X [''postcode'', ''area''] None t_encoder) (\<lambda>_.
       bindE (store_features X feature_file_path) (\<lambda>_.
       if ti
       then bindE (local_y y) (\<lambda>yv. store_targets yv target_file_path)
       else returnE ())))))) w2) = (r, w')"
      by blast
    then show ?thesis
    proof cases
      case c
      from p(1) c(2) have "silent w w'" by (rule silent_trans)
      with c(1) show ?thesis by simp
    next
      case d
      from p(1) d(1) have s: "silent w w2" by (rule silent_trans)
      have t: "trace w2 = trace w" "files w2 = files w"
        using s by (simp_all add: silent_def)
      from persist_apply_run [OF d(2) p(2)] show ?thesis
        by (elim conjE disjE) (auto simp: silent_def t)
    qed
  qed
qed



lemma demo_apply_present:
  "feature_engineering_pipeline demo_lib 0 [''store''] ''X.parquet'' ''enc.pkl'' (Some ''y.csv'')
       False False \<lparr>heap = [demo_features], files = demo_files, trace = []\<rparr>
     = (Inr (),
        \<lparr>heap = [demo_features,
                 [(''postcode'', [Num 42]), (''area'', [Num 42]),
                  (''yr_built'', [Num 1990]), (''bedrooms'', [Num 3]),
                  (''condition'', [Num 4]), (''distance'', [Num (1 / 4)]),
                  (''sqft_living15'', [NaN]), (''sqft_lot15'', [NaN]),
                  (''year'', [Num 2020])]],
         files = ([''store'', ''X.parquet''],
                  TableFile [(''postcode'', [Num 42]), (''area'', [Num 42]),
                  (''yr_built'', [Num 1990]), (''bedrooms'', [Num 3]),
                  (''condition'', [Num 4]), (''distance'', [Num (1 / 4)]),
                  (''sqft_living15'', [NaN]), (''sqft_lot15'', [NaN]),
                  (''year'', [Num 2020])]) # demo_files,
         trace = [Opened [''store'', ''encoders'', ''enc.pkl''],
                  Transformed [''postcode'', ''area''],
                  Wrote [''store'', ''X.parquet''],
                  Printed ''Features stored in store/X.parquet'']\<rparr>)"
  by code_simp

lemma demo_apply_no_name:
  "feature_engineering_pipeline demo_lib 0 [''store''] ''X.parquet'' ''enc.pkl'' None
       False False \<lparr>heap = [demo_features], files = demo_files, trace = []\<rparr>
     = (Inl TypeError,
        \<lparr>heap = [demo_features,
                 [(''postcode'', [Str ''A1'']), (''area'', [Str ''north'']),
                  (''yr_built'', [Num 1990]), (''bedrooms'', [Num 3]),
                  (''condition'', [Num 4]), (''distance'', [Num (1 / 4)]),
                  (''sqft_living15'', [NaN]), (''sqft_lot15'', [NaN]),
                  (''year'', [Num 2020])]],
         files = demo_files, trace = []\<rparr>)"
  by code_simp


subsection \<open>Inference without a name for the target file\<close>

lemma pipeline_apply_without_target_name:
  assumes "feature_engineering_pipeline L df fsp ffn efn None False ti w = (r, w')"
  shows "(\<exists>e. r = Inl e) \<and> files w' = files w \<and> trace w' = trace w"
  using pipeline_apply_run [OF assms] by (auto simp: silent_def)

text \<open>
  Claim C1. The signature gives \<open>target_file_name\<close> the default \<open>None\<close>, and in inference
  without targets no target file is to be written. But the function joins the path of the
  target file before it looks at the flags, and \<open>Path / None\<close> raises: on the engineered
  table of the example, with the stored encoder in place, the run with no target file name
  ends in TypeError, having written no file and made no \<open>transform\<close>; the same run with a
  target file name returns and writes the feature file only.
\<close>

theorem inference_without_target_file_name:
  "fst (feature_engineering_pipeline demo_lib 0 [''store''] ''X.parquet'' ''enc.pkl'' None
          False False \<lparr>heap = [demo_features], files = demo_files, trace = []\<rparr>)
     = Inl TypeError
   \<and> files (snd (feature_engineering_pipeline demo_lib 0 [''store''] ''X.parquet'' ''enc.pkl''
          None False False \<lparr>heap = [demo_features], files = demo_files, trace = []\<rparr>))
     = demo_files
   \<and> trace (snd (feature_engineering_pipeline demo_lib 0 [''store''] ''X.parquet'' ''enc.pkl''
          None False False \<lparr>heap = [demo_features], files = demo_files, trace = []\<rparr>))
     = []
   \<and> fst (feature_engineering_pipeline demo_lib 0 [''store''] ''X.parquet'' ''enc.pkl''
          (Some ''y.csv'') False False \<lparr>heap = [demo_features], files = demo_files, trace = []\<rparr>)
     = Inr ()
   \<and> trace (snd (feature_engineering_pipeline demo_lib 0 [''store''] ''X.parquet'' ''enc.pkl''
          (Some ''y.csv'') False False \<lparr>heap = [demo_features], files = demo_files, trace = []\<rparr>))
     = [Opened [''store'', ''encoders'', ''enc.pkl''], Transformed [''postcode'', ''area''],
        Wrote [''store'', ''X.parquet''], Printed ''Features stored in store/X.parquet'']"
  by (simp add: demo_apply_no_name demo_apply_present)

subsection \<open>Fitting without targets\<close>

lemma only_emits_refl [simp]: "only_emits A w w"
  by (simp add: only_emits_def)





























subsection \<open>Repairing typos of the condition\<close>

lemma extractOne_Some: "choices \<noteq> [] \<Longrightarrow> \<exists>b s. extractOne sc q choices = Some (b, s)"
  by (induction choices) (auto split: option.splits)

lemma extractOne_None: "extractOne sc q choices = None \<longleftrightarrow> choices = []"
  by (cases choices) (auto split: option.splits if_splits)

lemma extractOne_best:
  "extractOne sc q choices = Some (b, s) \<Longrightarrow>
     b \<in> set choices \<and> s = sc q b \<and> (\<forall>c \<in> set choices. sc q c \<le> s)"
proof (induction choices arbitrary: b s)
  case Nil
  then show ?case by simp
next
  case (Cons c cs)
  show ?case
  proof (cases "extractOne sc q cs")
    case None
    then have "cs = []" by (simp add: extractOne_None)
    with Cons.prems None show ?thesis by auto
  next
    case (Some bs)
    obtain b' s' where bs: "bs = (b', s')" by (cases bs)
    from Cons.IH [of b' s'] Some bs
    have ih: "b' \<in> set cs" "s' = sc q b'" "\<forall>c \<in> set cs. sc q c \<le> s'" by blast+
    show ?thesis
    proof (cases "s' \<le> sc q c")
      case True
      with Cons.prems Some bs have "b = c" "s = sc q c" by auto
      with ih True show ?thesis by auto
    next
      case False
      with Cons.prems Some bs have "b = b'" "s = s'" by auto
      with ih False show ?thesis by auto
    qed
  qed
qed

lemma typo_loop_rows:
  assumes "list_all is_str col" and "choices \<noteq> []"
  shows "\<exists>conds scores. typo_loop sc th choices col = Inr (conds, scores)
           \<and> length conds = length col \<and> length scores = length col
           \<and> (\<forall>i < length col. \<exists>v b s. col ! i = Str v \<and> b \<in> set choices \<and> s = sc v b
                  \<and> (\<forall>c \<in> set choices. sc v c \<le> s)
                  \<and> conds ! i = (if th \<le> real s then Str b else Str v)
                  \<and> scores ! i = Num (real s))"
  using assms(1)
proof (induction col)
  case Nil
  then show ?case by simp
next
  case (Cons c col)
  from Cons.prems obtain v where v: "c = Str v" by (cases c) simp_all
  from Cons.prems have "list_all is_str col" by simp
  from Cons.IH [OF this] obtain conds scores where ih:
    "typo_loop sc th choices col = Inr (conds, scores)"
    "length conds = length col" "length scores = length col"
    "\<forall>i < length col. \<exists>v b s. col ! i = Str v \<and> b \<in> set choices \<and> s = sc v b
                  \<and> (\<forall>c \<in> set choices. sc v c \<le> s)
                  \<and> conds ! i = (if th \<le> real s then Str b else Str v)
                  \<and> scores ! i = Num (real s)"
    by blast
  from extractOne_Some [OF assms(2)] obtain b s where bs: "extractOne sc v choices = Some (b, s)"
    by blast
  from extractOne_best [OF bs]
  have best: "b \<in> set choices" "s = sc v b" "\<forall>c \<in> set choices. sc v c \<le> s" by blast+
  let ?conds = "(if th \<le> real s then Str b else Str v) # conds"
  let ?scores = "Num (real s) # scores"
  have run: "typo_loop sc th choices (c # col) = Inr (?conds, ?scores)"
    using v bs ih(1) by simp
  have rows: "\<exists>v b s. (c # col) ! i = Str v \<and> b \<in> set choices \<and> s = sc v b
                  \<and> (\<forall>c \<in> set choices. sc v c \<le> s)
                  \<and> ?conds ! i = (if th \<le> real s then Str b else Str v)
                  \<and> ?scores ! i = Num (real s)" if "i < length (c # col)" for i
  proof (cases i)
    case 0
    with v best show ?thesis by auto
  next
    case (Suc j)
    with that have "j < length col" by simp
    with ih(4) Suc show ?thesis by simp
  qed
  have all_rows: "\<forall>i < length (c # col). \<exists>v b s. (c # col) ! i = Str v \<and> b \<in> set choices
                  \<and> s = sc v b \<and> (\<forall>c \<in> set choices. sc v c \<le> s)
                  \<and> ?conds ! i = (if th \<le> real s then Str b else Str v)
                  \<and> ?scores ! i = Num (real s)"
    using rows by blast
  show ?case
    apply (rule exI [of _ ?conds])
    apply (rule exI [of _ ?scores])
    using run ih(2,3) all_rows apply simp
    done
qed

text \<open>
  Claim C5. \<open>data_extraction\<close> calls \<open>typo_fixer\<close> with the threshold 80 and \<open>etl\<close> passes
  the five labels. On a table whose \<open>condition\<close> column holds strings, that call does not
  raise. For every row with the value \<open>v\<close> there is a label \<open>b\<close> of the vocabulary whose
  score \<open>s\<close> against \<open>v\<close> is the best of all five; the new value of the row is \<open>b\<close> if
  \<open>80 \<le> s\<close> and \<open>v\<close> otherwise; and the column \<open>similarity_scores\<close> holds \<open>s\<close> in that
  row. That column is appended as the last one when the table did not have it. The scores
  lie between 0 and 100 when the scorer of the library keeps to that range.
\<close>

theorem typo_fixer_threshold:
  assumes "df < length (heap w)"
    and "getitem (heap w ! df) ''condition'' = Inr col"
    and "list_all is_str col"
  shows "\<exists>w' conds scores.
           typo_fixer L df 80 [''poor'', ''tolerable'', ''satisfactory'', ''good'', ''excellent''] w
             = (Inr (), w')
           \<and> getitem (heap w' ! df) ''condition'' = Inr conds
           \<and> getitem (heap w' ! df) ''similarity_scores'' = Inr scores
           \<and> length conds = length col \<and> length scores = length col
           \<and> (\<forall>i < length col. \<exists>v b s.
                  col ! i = Str v
                  \<and> b \<in> set [''poor'', ''tolerable'', ''satisfactory'', ''good'', ''excellent'']
                  \<and> s = fuzz_ratio L v b
                  \<and> (\<forall>c \<in> set [''poor'', ''tolerable'', ''satisfactory'', ''good'', ''excellent''].
                        fuzz_ratio L v c \<le> s)
                  \<and> conds ! i = (if 80 \<le> s then Str b else Str v)
                  \<and> scores ! i = Num (real s)
                  \<and> ((\<forall>x y. fuzz_ratio L x y \<le> 100) \<longrightarrow> s \<le> 100))
           \<and> (''similarity_scores'' \<notin> set (column_names (heap w ! df))
                 \<longrightarrow> column_names (heap w' ! df)
                       = column_names (heap w ! df) @ [''similarity_scores''])"
proof -
  let ?vocab = "[''poor'', ''tolerable'', ''satisfactory'', ''good'', ''excellent'']"
  let ?d = "heap w ! df"
  have "?vocab \<noteq> []" by simp
  from typo_loop_rows [OF assms(3) this, of "fuzz_ratio L" 80]
  obtain conds scores where loop:
    "typo_loop (fuzz_ratio L) 80 ?vocab col = Inr (conds, scores)"
    "length conds = length col" "length scores = length col"
    "\<forall>i < length col. \<exists>v b s. col ! i = Str v \<and> b \<in> set ?vocab \<and> s = fuzz_ratio L v b
         \<and> (\<forall>c \<in> set ?vocab. fuzz_ratio L v c \<le> s)
         \<and> conds ! i = (if 80 \<le> real s then Str b else Str v)
         \<and> scores ! i = Num (real s)"
    by blast
  let ?d' = "setitem (setitem ?d ''condition'' conds) ''similarity_scores'' scores"
  let ?w' = "w\<lparr>heap := (heap w)[df := ?d']\<rparr>"
  have run: "typo_fixer L df 80 ?vocab w = (Inr (), ?w')"
    using assms(2) loop(1) by (simp add: typo_fixer_def)
  have stored: "heap ?w' ! df = ?d'" using assms(1) by simp
  have c1: "getitem ?d' ''condition'' = Inr conds" by simp
  have c2: "getitem ?d' ''similarity_scores'' = Inr scores" by simp
  have rows: "\<forall>i < length col. \<exists>v b s.
                  col ! i = Str v \<and> b \<in> set ?vocab \<and> s = fuzz_ratio L v b
                  \<and> (\<forall>c \<in> set ?vocab. fuzz_ratio L v c \<le> s)
                  \<and> conds ! i = (if 80 \<le> s then Str b else Str v)
                  \<and> scores ! i = Num (real s)
                  \<and> ((\<forall>x y. fuzz_ratio L x y \<le> 100) \<longrightarrow> s \<le> 100)"
  proof (intro allI impI)
    fix i assume "i < length col"
    with loop(4) obtain v b s where r: "col ! i = Str v" "b \<in> set ?vocab" "s = fuzz_ratio L v b"
      "\<forall>c \<in> set ?vocab. fuzz_ratio L v c \<le> s"
      "conds ! i = (if 80 \<le> real s then Str b else Str v)" "scores ! i = Num (real s)"
      by blast
    have "(80 \<le> real s) = (80 \<le> s)" by linarith
    with r have "conds ! i = (if 80 \<le> s then Str b else Str v)" by simp
    moreover have "(\<forall>x y. fuzz_ratio L x y \<le> 100) \<longrightarrow> s \<le> 100" using r(3) by simp
    ultimately show "\<exists>v b s.
                  col ! i = Str v \<and> b \<in> set ?vocab \<and> s = fuzz_ratio L v b
                  \<and> (\<forall>c \<in> set ?vocab. fuzz_ratio L v c \<le> s)
                  \<and> conds ! i = (if 80 \<le> s then Str b else Str v)
                  \<and> scores ! i = Num (real s)
                  \<and> ((\<forall>x y. fuzz_ratio L x y \<le> 100) \<longrightarrow> s \<le> 100)"
      using r by blast
  qed
  have names: "column_names ?d' = column_names ?d @ [''similarity_scores'']"
    if "''similarity_scores'' \<notin> set (column_names ?d)"
  proof -
    have "''condition'' \<in> set (column_names ?d)" using assms(2) by (rule getitem_Inr_column)
    then have "column_names (setitem ?d ''condition'' conds) = column_names ?d"
      by (rule column_names_setitem_present)
    with that show ?thesis by (simp add: column_names_setitem_absent)
  qed
  show ?thesis
    apply (rule exI [of _ ?w'])
    apply (rule exI [of _ conds])
    apply (rule exI [of _ scores])
    using run stored c1 c2 loop(2,3) rows names apply simp
    done
qed

lemma demo_typo_fixer:
  "typo_fixer demo_lib 0 80 [''poor'', ''tolerable'', ''satisfactory'', ''good'', ''excellent'']
       \<lparr>heap = [[(''condition'', [Str ''god'', Str ''bad'', Str ''good''])]],
        files = [], trace = []\<rparr>
     = (Inr (),
        \<lparr>heap = [[(''condition'', [Str ''good'', Str ''bad'', Str ''good'']),
                  (''similarity_scores'', [Num 86, Num 29, Num 100])]],
         files = [], trace = []\<rparr>)"
  by code_simp

theorem typo_fixer_threshold_witness:
  "\<exists>w' conds scores.
     typo_fixer demo_lib 0 80 [''poor'', ''tolerable'', ''satisfactory'', ''good'', ''excellent'']
         \<lparr>heap = [[(''condition'', [Str ''god'', Str ''bad'', Str ''good''])]],
          files = [], trace = []\<rparr> = (Inr (), w')
     \<and> getitem (heap w' ! 0) ''condition'' = Inr conds
     \<and> getitem (heap w' ! 0) ''similarity_scores'' = Inr scores
     \<and> conds = [Str ''good'', Str ''bad'', Str ''good'']
     \<and> scores = [Num 86, Num 29, Num 100]
     \<and> column_names (heap w' ! 0) = [''condition'', ''similarity_scores'']"
proof -
  let ?w = "\<lparr>heap = [[(''condition'', [Str ''god'', Str ''bad'', Str ''good''])]],
        files = ([] :: (path \<times> real blob) list), trace = []\<rparr>"
  have a: "0 < length (heap ?w)" by simp
  have b: "getitem (heap ?w ! 0) ''condition'' = Inr [Str ''god'', Str ''bad'', Str ''good'']"
    by (simp add: getitem_def)
  have c: "list_all is_str [Str ''god'', Str ''bad'', Str ''good'']" by simp
  from typo_fixer_threshold [OF a b c, of demo_lib]
  obtain w' conds scores where r:
    "typo_fixer demo_lib 0 80 [''poor'', ''tolerable'', ''satisfactory'', ''good'', ''excellent''] ?w
       = (Inr (), w')"
    "getitem (heap w' ! 0) ''condition'' = Inr conds"
    "getitem (heap w' ! 0) ''similarity_scores'' = Inr scores"
    by blast
  from r(1) have w': "w' = \<lparr>heap = [[(''condition'', [Str ''good'', Str ''bad'', Str ''good'']),
                  (''similarity_scores'', [Num 86, Num 29, Num 100])]],
         files = [], trace = []\<rparr>"
    by (simp add: demo_typo_fixer)
  with r(2,3) have "conds = [Str ''good'', Str ''bad'', Str ''good'']"
    "scores = [Num 86, Num 29, Num 100]"
    by (simp_all add: getitem_def)
  with r w' show ?thesis by (simp add: column_names_def)
qed

subsection \<open>Imputing missing values\<close>

lemma getitem_setitems:
  "distinct (map fst t) \<Longrightarrow>
     getitem (setitems d t) c = (case map_of t c of Some s \<Rightarrow> Inr s | None \<Rightarrow> getitem d c)"
proof (induction t arbitrary: d)
  case Nil
  then show ?case by (simp add: setitems_def)
next
  case (Cons a t)
  obtain n s where a: "a = (n, s)" by (cases a)
  from Cons.prems a have dist: "distinct (map fst t)" and fresh: "n \<notin> fst ` set t" by simp_all
  have unfold: "setitems d ((n, s) # t) = setitems (setitem d n s) t"
    by (simp add: setitems_def)
  have ih: "getitem (setitems (setitem d n s) t) c
      = (case map_of t c of Some s \<Rightarrow> Inr s | None \<Rightarrow> getitem (setitem d n s) c)"
    by (rule Cons.IH [OF dist])
  show ?case
  proof (cases "c = n")
    case True
    from fresh have "map_of t n = None" by (simp add: map_of_eq_None_iff)
    with True ih show ?thesis by (simp add: unfold a split: option.splits)
  next
    case False
    with ih show ?thesis by (simp add: unfold a split: option.splits)
  qed
qed

lemma column_names_setitems:
  "distinct (map fst t) \<Longrightarrow>
     column_names (setitems d t)
       = column_names d @ filter (\<lambda>n. n \<notin> set (column_names d)) (map fst t)"
proof (induction t arbitrary: d)
  case Nil
  then show ?case by (simp add: setitems_def)
next
  case (Cons a t)
  obtain n s where a: "a = (n, s)" by (cases a)
  from Cons.prems a have dist: "distinct (map fst t)" and fresh: "n \<notin> set (map fst t)" by simp_all
  have unfold: "setitems d ((n, s) # t) = setitems (setitem d n s) t"
    by (simp add: setitems_def)
  show ?case
  proof (cases "n \<in> set (column_names d)")
    case True
    then show ?thesis
      by (simp add: unfold Cons.IH [OF dist] a column_names_setitem_present)
  next
    case False
    have "filter (\<lambda>m. m \<noteq> n \<and> m \<notin> set (column_names d)) (map fst t)
        = filter (\<lambda>m. m \<notin> set (column_names d)) (map fst t)"
      using fresh by (intro filter_cong) auto
    with False show ?thesis
      by (simp add: unfold Cons.IH [OF dist] a column_names_setitem_absent)
  qed
qed

lemma df_to_impute_filter:
  "map snd (filter fst (zip (map P (column_names d)) d)) = filter (\<lambda>(n, s). P n) d"
  by (induction d) (auto simp: column_names_def)

lemma getitem_member:
  "distinct (column_names d) \<Longrightarrow> (n, s) \<in> set d \<Longrightarrow> getitem d n = Inr s"
  by (simp add: getitem_def column_names_def)

lemma indicator_binary: "set (indicator_column s) \<subseteq> {Num 0, Num 1}"
  by (auto simp: indicator_column_def)

text \<open>
  Claim C6. Let the table have distinct column names, none of them beginning with
  \<open>missingindicator_\<close>, and let the columns other than \<open>postcode\<close>, \<open>area\<close>, \<open>date\<close> and
  \<open>condition\<close> be numeric, at least one of them, with at least one row. Then
  \<open>impute_missing\<close> returns, and it has given the imputer exactly those other columns:
  \<^item> the four excluded columns are as before;
  \<^item> every other column stands where it stood and holds the imputed column: its observed
    values, and the imputer's estimate (made from exactly the columns that are not
    excluded) where the value was missing; a column with no observed value at all is not
    imputed and stays as it was;
  \<^item> for every such column with a missing value, and for no other, a new column
    \<open>missingindicator_<name>\<close> is appended, holding 1 where the value was missing and 0
    elsewhere.
\<close>

theorem impute_missing_columns:
  assumes "df < length (heap w)"
    and "distinct (column_names (heap w ! df))"
    and "\<forall>n \<in> set (column_names (heap w ! df)). \<forall>m. n \<noteq> ''missingindicator_'' @ m"
    and "filter (\<lambda>(n, s). n \<notin> set [''postcode'', ''area'', ''date'', ''condition''])
           (heap w ! df) \<noteq> []"
    and "nrows (filter (\<lambda>(n, s). n \<notin> set [''postcode'', ''area'', ''date'', ''condition''])
           (heap w ! df)) \<noteq> 0"
    and "list_all (\<lambda>(n, s). list_all numeric s)
           (filter (\<lambda>(n, s). n \<notin> set [''postcode'', ''area'', ''date'', ''condition''])
              (heap w ! df))"
  shows "\<exists>w'. impute_missing L df w = (Inr (), w')
     \<and> column_names (heap w' ! df)
         = column_names (heap w ! df)
           @ map (\<lambda>(n, s). ''missingindicator_'' @ n)
               (filter (\<lambda>(n, s). list_ex missing s)
                  (filter (\<lambda>(n, s). n \<notin> set [''postcode'', ''area'', ''date'', ''condition''])
                     (heap w ! df)))
     \<and> (\<forall>c \<in> set [''postcode'', ''area'', ''date'', ''condition''].
            getitem (heap w' ! df) c = getitem (heap w ! df) c)
     \<and> (\<forall>(n, s) \<in> set (heap w ! df).
            n \<notin> set [''postcode'', ''area'', ''date'', ''condition''] \<longrightarrow>
              getitem (heap w' ! df) n
                = Inr (if list_all missing s then s
                       else fill_column (estimate L)
                              (filter (\<lambda>(n, s). n \<notin> set [''postcode'', ''area'', ''date'',
                                                            ''condition'']) (heap w ! df)) n s)
              \<and> (list_ex missing s \<longrightarrow>
                   getitem (heap w' ! df) (''missingindicator_'' @ n) = Inr (indicator_column s)
                   \<and> set (indicator_column s) \<subseteq> {Num 0, Num 1}))"
proof -
  let ?excl = "[''postcode'', ''area'', ''date'', ''condition'']"
  let ?mi = "''missingindicator_''"
  let ?d = "heap w ! df"
  let ?X = "filter (\<lambda>(n, s). n \<notin> set ?excl) ?d"
  define A where "A = map (\<lambda>(n, s). (n, fill_column (estimate L) ?X n s))
              (filter (\<lambda>(n, s). \<not> list_all missing s) ?X)"
  define B where "B = map (\<lambda>(n, s). (?mi @ n, indicator_column s))
              (filter (\<lambda>(n, s). list_ex missing s) ?X)"
  define t where "t = A @ B"
  define w' where "w' = w\<lparr>heap := (heap w)[df := setitems ?d t]\<rparr>"
  have dd: "distinct (map fst ?d)" using assms(2) by (simp add: column_names_def)
  have imp: "IterativeImputer_fit_transform (estimate L) ?X = Inr t"
    using assms(4,5,6) unfolding t_def A_def B_def
    by (simp only: IterativeImputer_fit_transform_def) simp
  have "impute_missing L df w
      = bindE (liftE (IterativeImputer_fit_transform (estimate L) ?X))
          (\<lambda>imputed_df. update df (setitems ?d imputed_df)) w"
    unfolding impute_missing_def Let_def
    by (simp only: bindE_apply deref_apply prod.case sum.case df_to_impute_filter)
  also have "\<dots> = (Inr (), w')"
    unfolding imp w'_def
    by (simp only: bindE_apply liftE_apply update_apply prod.case sum.case)
  finally have run: "impute_missing L df w = (Inr (), w')" .
  have stored: "heap w' ! df = setitems ?d t" using assms(1) by (simp add: w'_def)
  have memA: "(n, v) \<in> set A \<longleftrightarrow>
      (\<exists>s. (n, s) \<in> set ?d \<and> n \<notin> set ?excl \<and> \<not> list_all missing s
           \<and> v = fill_column (estimate L) ?X n s)" for n v
    unfolding A_def by auto
  have memB: "(k, v) \<in> set B \<longleftrightarrow>
      (\<exists>n s. (n, s) \<in> set ?d \<and> n \<notin> set ?excl \<and> list_ex missing s
           \<and> k = ?mi @ n \<and> v = indicator_column s)" for k v
    unfolding B_def by auto
  have namesA: "map fst A = map fst (filter (\<lambda>(n, s). \<not> list_all missing s) ?X)"
    unfolding A_def by (simp add: case_prod_unfold comp_def)
  have namesB: "map fst B = map (\<lambda>n. ?mi @ n) (map fst (filter (\<lambda>(n, s). list_ex missing s) ?X))"
    unfolding B_def by (simp add: case_prod_unfold comp_def)
  have dA: "distinct (map fst A)"
    unfolding namesA by (intro distinct_map_filter dd)
  have dB: "distinct (map fst B)"
  proof -
    have F: "distinct (map fst (filter (\<lambda>(n, s). list_ex missing s) ?X))"
      by (intro distinct_map_filter dd)
    have I: "inj_on (\<lambda>n. ?mi @ n) (set (map fst (filter (\<lambda>(n, s). list_ex missing s) ?X)))"
      by (simp only: inj_on_def same_append_eq) blast
    show ?thesis
      unfolding namesB by (rule iffD2 [OF distinct_map, OF conjI [OF F I]])
  qed
  have A_old: "n \<in> set (column_names ?d)" if "n \<in> fst ` set A" for n
  proof -
    from that obtain v where "(n, v) \<in> set A" by auto
    then obtain s where "(n, s) \<in> set ?d" unfolding memA by blast
    then show ?thesis by (force simp: column_names_def)
  qed
  have B_new: "k \<notin> set (column_names ?d)" if "k \<in> fst ` set B" for k
  proof -
    from that obtain v where "(k, v) \<in> set B" by auto
    then obtain n where "k = ?mi @ n" unfolding memB by blast
    with assms(3) show ?thesis by blast
  qed
  have dt: "distinct (map fst t)"
  proof -
    have "set (map fst A) \<inter> set (map fst B) = {}"
      using A_old B_new by (simp only: set_map) blast
    with dA dB show ?thesis unfolding t_def by (simp only: map_append distinct_append)
  qed
  have set_t: "set t = set A \<union> set B" unfolding t_def by simp
  have look: "getitem (heap w' ! df) c
      = (case map_of t c of Some s \<Rightarrow> Inr s | None \<Rightarrow> getitem ?d c)" for c
    unfolding stored by (rule getitem_setitems [OF dt])
  have look_None: "getitem (heap w' ! df) c = getitem ?d c" if "c \<notin> fst ` set t" for c
  proof -
    from that have "map_of t c = None" by (rule iffD2 [OF map_of_eq_None_iff])
    then show ?thesis by (simp add: look)
  qed
  have look_Some: "getitem (heap w' ! df) c = Inr v" if "(c, v) \<in> set t" for c v
  proof -
    from that have "map_of t c = Some v" by (rule map_of_is_SomeI [OF dt])
    then show ?thesis by (simp add: look)
  qed
  have names: "column_names (heap w' ! df)
      = column_names ?d @ map (\<lambda>(n, s). ?mi @ n) (filter (\<lambda>(n, s). list_ex missing s) ?X)"
  proof -
    have fA: "filter (\<lambda>n. n \<notin> set (column_names ?d)) (map fst A) = []"
      using A_old by (simp only: filter_empty_conv set_map) blast
    have fB: "filter (\<lambda>n. n \<notin> set (column_names ?d)) (map fst B) = map fst B"
      using B_new by (simp only: filter_id_conv set_map) blast
    have nB: "map fst B = map (\<lambda>(n, s). ?mi @ n) (filter (\<lambda>(n, s). list_ex missing s) ?X)"
      unfolding B_def by (simp add: case_prod_unfold comp_def)
    have e1: "column_names (heap w' ! df)
        = column_names ?d @ filter (\<lambda>n. n \<notin> set (column_names ?d)) (map fst t)"
      unfolding stored by (rule column_names_setitems [OF dt])
    have e2: "filter (\<lambda>n. n \<notin> set (column_names ?d)) (map fst t) = map fst B"
      unfolding t_def by (simp only: map_append filter_append fA fB append_Nil)
    show ?thesis unfolding e1 e2 nB ..
  qed
  have excluded: "getitem (heap w' ! df) c = getitem ?d c" if "c \<in> set ?excl" for c
  proof (rule look_None, rule notI)
    assume "c \<in> fst ` set t"
    then obtain v where "(c, v) \<in> set A \<or> (c, v) \<in> set B" unfolding set_t by fastforce
    then show False
    proof
      assume "(c, v) \<in> set A"
      with that show False unfolding memA by blast
    next
      assume "(c, v) \<in> set B"
      then obtain n where "c = ?mi @ n" unfolding memB by blast
      with that show False by auto
    qed
  qed
  have included: "getitem (heap w' ! df) n
        = Inr (if list_all missing s then s else fill_column (estimate L) ?X n s)
      \<and> (list_ex missing s \<longrightarrow>
           getitem (heap w' ! df) (?mi @ n) = Inr (indicator_column s)
           \<and> set (indicator_column s) \<subseteq> {Num 0, Num 1})"
    if mem: "(n, s) \<in> set ?d" and inc: "n \<notin> set ?excl" for n s
  proof (intro conjI impI)
    from mem have old: "n \<in> set (column_names ?d)" by (force simp: column_names_def)
    have notB: "n \<notin> fst ` set B" using old B_new by blast
    show "getitem (heap w' ! df) n
        = Inr (if list_all missing s then s else fill_column (estimate L) ?X n s)"
    proof (cases "list_all missing s")
      case True
      have "n \<notin> fst ` set A"
      proof
        assume "n \<in> fst ` set A"
        then obtain v where "(n, v) \<in> set A" by auto
        then obtain s' where s': "(n, s') \<in> set ?d" "\<not> list_all missing s'"
          unfolding memA by blast
        from dd s'(1) mem have "s' = s" by (meson eq_key_imp_eq_value)
        with s'(2) True show False by simp
      qed
      with notB have "n \<notin> fst ` set t" unfolding set_t by blast
      then have "getitem (heap w' ! df) n = getitem ?d n" by (rule look_None)
      also have "\<dots> = Inr s" using assms(2) mem by (rule getitem_member)
      finally show ?thesis using True by simp
    next
      case False
      with mem inc have "(n, fill_column (estimate L) ?X n s) \<in> set A" unfolding memA by blast
      then have "(n, fill_column (estimate L) ?X n s) \<in> set t" unfolding set_t by blast
      then have "getitem (heap w' ! df) n = Inr (fill_column (estimate L) ?X n s)"
        by (rule look_Some)
      with False show ?thesis by simp
    qed
  next
    assume ex: "list_ex missing s"
    with mem inc have "(?mi @ n, indicator_column s) \<in> set B" unfolding memB by blast
    then have "(?mi @ n, indicator_column s) \<in> set t" unfolding set_t by blast
    then show "getitem (heap w' ! df) (?mi @ n) = Inr (indicator_column s)"
      by (rule look_Some)
  next
    show "set (indicator_column s) \<subseteq> {Num 0, Num 1}" by (rule indicator_binary)
  qed
  show ?thesis
    apply (rule exI [of _ w'])
    apply (intro conjI ballI)
       apply (rule run)
      apply (rule names)
     apply (erule excluded)
    apply (clarify)
    apply (rule included)
     apply assumption+
    done
qed

theorem impute_missing_columns_witness:
  "\<exists>w'. impute_missing demo_lib 0
            \<lparr>heap = [[(''postcode'', [Str ''A1'', Str ''B2'']), (''floors'', [Num 1, NaN]),
                      (''sqft_lot'', [Num 5, Num 6])]],
             files = [], trace = []\<rparr> = (Inr (), w')
      \<and> column_names (heap w' ! 0)
          = [''postcode'', ''floors'', ''sqft_lot'', ''missingindicator_floors'']
      \<and> getitem (heap w' ! 0) ''postcode'' = Inr [Str ''A1'', Str ''B2'']
      \<and> getitem (heap w' ! 0) ''floors'' = Inr [Num 1, Num 7]
      \<and> getitem (heap w' ! 0) ''sqft_lot'' = Inr [Num 5, Num 6]
      \<and> getitem (heap w' ! 0) ''missingindicator_floors'' = Inr [Num 0, Num 1]"
proof -
  let ?d = "[(''postcode'', [Str ''A1'', Str ''B2'']), (''floors'', [Num 1, NaN]),
             (''sqft_lot'', [Num 5, Num 6])]"
  let ?w = "\<lparr>heap = [?d], files = ([] :: (path \<times> real blob) list), trace = []\<rparr>"
  have a1: "0 < length (heap ?w)" by simp
  have a2: "distinct (column_names (heap ?w ! 0))" by (simp add: column_names_def)
  have a3: "\<forall>n \<in> set (column_names (heap ?w ! 0)). \<forall>m. n \<noteq> ''missingindicator_'' @ m"
    by (simp add: column_names_def)
  have a4: "filter (\<lambda>(n, s). n \<notin> set [''postcode'', ''area'', ''date'', ''condition''])
           (heap ?w ! 0) \<noteq> []" by simp
  have a5: "nrows (filter (\<lambda>(n, s). n \<notin> set [''postcode'', ''area'', ''date'', ''condition''])
           (heap ?w ! 0)) \<noteq> 0" by (simp add: nrows_def)
  have a6: "list_all (\<lambda>(n, s). list_all numeric s)
           (filter (\<lambda>(n, s). n \<notin> set [''postcode'', ''area'', ''date'', ''condition''])
              (heap ?w ! 0))" by simp
  have fill: "fill_column (estimate demo_lib) X ''floors'' [Num 1, NaN] = [Num 1, Num 7]" for X
    by (simp add: fill_column_def demo_lib_def missing_def upt_rec)
  have keep: "fill_column (estimate demo_lib) X ''sqft_lot'' [Num 5, Num 6] = [Num 5, Num 6]" for X
    by (simp add: fill_column_def demo_lib_def missing_def upt_rec)
  from impute_missing_columns [OF a1 a2 a3 a4 a5 a6, of demo_lib]
  show ?thesis
    apply (simp add: fill keep indicator_column_def missing_def getitem_def column_names_def)
    apply (elim exE conjE)
    apply (intro exI conjI; assumption)
    done
qed

end
